theory Spec2Isabelle
  imports Complex_Main "HOL-Library.Mapping" "HOL-Library.AList_Mapping"
begin

section \<open>Data model of main.go\<close>

text \<open>
  The \<open>float64\<close> values that the program reads (prices, thresholds) are finite numbers
  and are modelled by \<open>real\<close>; the comparisons of the source are exact on them. A
  \<open>float64\<close> value that the program computes is an \<open>fval\<close>: the arithmetic of the source
  rounds to the nearest \<open>float64\<close> and may overflow to an infinity or give NaN (see the
  section on arithmetic below). Infinities and NaN among the values read, and the sign
  of a zero, are outside the model.
  A \<open>time.Time\<close> is a number of nanoseconds on one time line (wall clock and
  monotonic clock are not distinguished), a \<open>time.Duration\<close> a number of nanoseconds.
\<close>

type_synonym float64 = real

datatype fval = Finite real | PosInf | NegInf | NaN

type_synonym Time = int
type_synonym Duration = int

text \<open>
  The text that \<open>now.Format(time.RFC3339)\<close> writes carries the instant with a precision
  of one second. It is modelled by that whole number of seconds.
\<close>

datatype rfc3339 = RFC3339 int

text \<open>
  The error values of main.go, one constructor for each \<open>fmt.Errorf\<close> of the source,
  in the order of the source. The argument of a wrapping error is the text of the
  wrapped transport error. \<open>IndexOutOfRange\<close> is not an error value of the program: it
  stands for the run-time panic of an index expression, which no caller recovers.
\<close>

datatype error =
    RequestFailed string
  | NoPriceData
  | DailyKlineFailed string
  | NoKlineData
  | OpenPriceFormat
  | OpenPriceParse
  | Kline15mFailed string
  | KlineInsufficient
  | ClosePriceFormat
  | ClosePriceParse
  | ApiError string
  | UnknownPeriod string
  | AllSourcesFailed string string
  | PushFailed string
  | IndexOutOfRange

fun is_panic :: "error \<Rightarrow> bool" where
  "is_panic IndexOutOfRange = True"
| "is_panic _ = False"

record PriceAlertRule =
  pr_Symbol :: string
  pr_Threshold :: float64
  pr_Comparison :: string

record ChangeAlertRule =
  cr_Symbol :: string
  cr_ChangePercent :: float64
  cr_Period :: string

record Config =
  PriceAlertRules :: "PriceAlertRule list"
  ChangeAlertRules :: "ChangeAlertRule list"

definition Below :: string where
  "Below = ''<''"

definition Above :: string where
  "Above = ''>''"

text \<open>An element of a Binance kline (\<open>[]interface{}\<close>): a decoded JSON value.\<close>

datatype json =
    JString string
  | JNumber real
  | JBool bool
  | JNull
  | JArray "json list"
  | JObject "(string \<times> json) list"

type_synonym BinanceKline = "json list"

record BybitKlineResponse =
  kl_List :: "string list list"
  kl_RetCode :: int
  kl_RetMsg :: string

record BinanceResponse =
  bn_Symbol :: string
  bn_Price :: string

record BybitTicker =
  by_Symbol :: string
  by_LastPrice :: string

record BybitResponse =
  by_List :: "BybitTicker list"
  by_RetCode :: int
  by_RetMsg :: string

record CoinbaseResponse =
  Amount :: string

text \<open>
  Kraken's \<open>result\<close> object, as the list of its entries in the order in which the
  \<open>range\<close> loop of the source meets them; each entry is its key and its field \<open>c\<close>.
\<close>

record KrakenResponse =
  Result :: "(string \<times> string list) list"

type_synonym prices = "(string, float64) mapping"

text \<open>
  The message of an alert is built by \<open>fmt.Sprintf\<close> around fixed, non-empty text.
  It is modelled by the values it renders.
\<close>

datatype message =
    FellBelow float64
  | RoseAbove float64
  | Changed string bool fval float64 float64

record AlertInfo =
  Symbol :: string
  AlertType :: string
  CurrentPrice :: float64
  Message :: message

text \<open>The requests the program sends: each GET with the parameters it puts in the
  URL, and the POST with the alerts its body renders.\<close>

datatype request =
    GetBinanceTickers
  | GetBybitTickers
  | GetCoinbase string
  | GetKraken string
  | GetBinanceKline string string nat
  | GetBybitKline string string nat
  | PostNtfy "AlertInfo list"

text \<open>
  The global \<open>priceHistory\<close>, and the state the program acts on: \<open>priceHistory\<close> and
  the requests sent so far. What the program writes to its log is not part of the
  model.
\<close>

record PriceHistory =
  lastAlertTime :: "(string, rfc3339) mapping"
  priceAlertTime :: Time

record world =
  priceHistory :: PriceHistory
  requests :: "request list"

text \<open>
  What the program does not decide: the answer of each endpoint (which may depend on
  every request sent before, \<open>Inl\<close> being a transport error), the result of
  \<open>fmt.Sscanf(s, "%f", &x)\<close> (\<open>None\<close> when it returns an error), and the order in
  which a \<open>range\<close> loop meets the keys of a Go map (which may change from one loop to
  the next, so it is given the requests sent so far; nothing is assumed about it).
\<close>

record env =
  sscanf_f :: "string \<Rightarrow> float64 option"
  binanceTickers :: "request list \<Rightarrow> request \<Rightarrow> string + BinanceResponse list"
  bybitTickers :: "request list \<Rightarrow> request \<Rightarrow> string + BybitResponse"
  coinbaseSpot :: "request list \<Rightarrow> request \<Rightarrow> string + CoinbaseResponse"
  krakenTicker :: "request list \<Rightarrow> request \<Rightarrow> string + KrakenResponse"
  binanceKlines :: "request list \<Rightarrow> request \<Rightarrow> string + BinanceKline list"
  bybitKlines :: "request list \<Rightarrow> request \<Rightarrow> string + BybitKlineResponse"
  ntfyPost :: "request list \<Rightarrow> request \<Rightarrow> string option"
  rangeOrder :: "request list \<Rightarrow> string list \<Rightarrow> string list"

definition http :: "(request list \<Rightarrow> request \<Rightarrow> 'r) \<Rightarrow> request \<Rightarrow> world \<Rightarrow> 'r \<times> world" where
  "http respond req w = (respond (requests w) req, w\<lparr>requests := requests w @ [req]\<rparr>)"

section \<open>Price source adapters\<close>

definition getPricesFromBinance :: "env \<Rightarrow> world \<Rightarrow> (error + prices) \<times> world" where
  "getPricesFromBinance e w =
     (case http (binanceTickers e) GetBinanceTickers w of
        (Inl err, w') \<Rightarrow> (Inl (RequestFailed err), w')
      | (Inr tickers, w') \<Rightarrow>
          (Inr (foldl (\<lambda>prices ticker.
                   case sscanf_f e (bn_Price ticker) of
                     Some price \<Rightarrow> Mapping.update (bn_Symbol ticker) price prices
                   | None \<Rightarrow> prices)
                 Mapping.empty tickers), w'))"

definition getPricesFromBybit :: "env \<Rightarrow> world \<Rightarrow> (error + prices) \<times> world" where
  "getPricesFromBybit e w =
     (case http (bybitTickers e) GetBybitTickers w of
        (Inl err, w') \<Rightarrow> (Inl (RequestFailed err), w')
      | (Inr result, w') \<Rightarrow>
          (Inr (foldl (\<lambda>prices ticker.
                   case sscanf_f e (by_LastPrice ticker) of
                     Some price \<Rightarrow> Mapping.update (by_Symbol ticker) price prices
                   | None \<Rightarrow> prices)
                 Mapping.empty (by_List result)), w'))"

text \<open>The set \<open>symbols\<close> that the Coinbase and Kraken adapters collect from the rules.\<close>

definition symbols :: "Config \<Rightarrow> string list" where
  "symbols config =
     remdups (map pr_Symbol (PriceAlertRules config) @ map cr_Symbol (ChangeAlertRules config))"

fun coinbaseLoop :: "env \<Rightarrow> string list \<Rightarrow> prices \<Rightarrow> world \<Rightarrow> prices \<times> world" where
  "coinbaseLoop e [] prices w = (prices, w)"
| "coinbaseLoop e (symbol # rest) prices w =
     (case http (coinbaseSpot e) (GetCoinbase symbol) w of
        (Inl err, w') \<Rightarrow> coinbaseLoop e rest prices w'
      | (Inr result, w') \<Rightarrow>
          (case sscanf_f e (Amount result) of
             Some price \<Rightarrow> coinbaseLoop e rest (Mapping.update (symbol @ ''USDT'') price prices) w'
           | None \<Rightarrow> coinbaseLoop e rest prices w'))"

definition getPricesFromCoinbase :: "env \<Rightarrow> Config \<Rightarrow> world \<Rightarrow> (error + prices) \<times> world" where
  "getPricesFromCoinbase e config w =
     (case coinbaseLoop e (rangeOrder e (requests w) (symbols config)) Mapping.empty w of
        (prices, w') \<Rightarrow>
          if Mapping.is_empty prices then (Inl NoPriceData, w') else (Inr prices, w'))"

definition symbolMap :: "string \<Rightarrow> string option" where
  "symbolMap = map_of [(''BTC'', ''XBTUSD''), (''ETH'', ''ETHUSD''), (''SOL'', ''SOLUSD'')]"

fun krakenLoop :: "env \<Rightarrow> string list \<Rightarrow> prices \<Rightarrow> world \<Rightarrow> prices \<times> world" where
  "krakenLoop e [] prices w = (prices, w)"
| "krakenLoop e (symbol # rest) prices w =
     (case symbolMap symbol of
        None \<Rightarrow> krakenLoop e rest prices w
      | Some krakenSymbol \<Rightarrow>
          (case http (krakenTicker e) (GetKraken krakenSymbol) w of
             (Inl err, w') \<Rightarrow> krakenLoop e rest prices w'
           | (Inr result, w') \<Rightarrow>
               (case Result result of
                  [] \<Rightarrow> krakenLoop e rest prices w'
                | (key, []) # others \<Rightarrow> krakenLoop e rest prices w'
                | (key, c0 # cs) # others \<Rightarrow>
                    (case sscanf_f e c0 of
                       Some price \<Rightarrow>
                         krakenLoop e rest (Mapping.update (symbol @ ''USDT'') price prices) w'
                     | None \<Rightarrow> krakenLoop e rest prices w'))))"

definition getPricesFromKraken :: "env \<Rightarrow> Config \<Rightarrow> world \<Rightarrow> (error + prices) \<times> world" where
  "getPricesFromKraken e config w =
     (case krakenLoop e (rangeOrder e (requests w) (symbols config)) Mapping.empty w of
        (prices, w') \<Rightarrow>
          if Mapping.is_empty prices then (Inl NoPriceData, w') else (Inr prices, w'))"

section \<open>Price aggregator\<close>

text \<open>
  The loop of \<open>getAllPrices\<close> over its table of sources. The result \<open>None\<close> is the nil
  map of the source.
\<close>

type_synonym priceSource = "string \<times> (world \<Rightarrow> (error + prices) \<times> world)"

fun tryPriceSources :: "priceSource list \<Rightarrow> world \<Rightarrow> (prices option \<times> string) \<times> world" where
  "tryPriceSources [] w = ((None, ''''), w)"
| "tryPriceSources ((name, fn) # rest) w =
     (case fn w of
        (Inr prices, w') \<Rightarrow>
          if \<not> Mapping.is_empty prices then ((Some prices, name), w')
          else tryPriceSources rest w'
      | (Inl err, w') \<Rightarrow> tryPriceSources rest w')"

definition priceSources :: "env \<Rightarrow> Config \<Rightarrow> priceSource list" where
  "priceSources e config =
     [(''Binance'', getPricesFromBinance e),
      (''Bybit'', getPricesFromBybit e),
      (''Coinbase'', getPricesFromCoinbase e config),
      (''Kraken'', getPricesFromKraken e config)]"

definition getAllPrices :: "env \<Rightarrow> Config \<Rightarrow> world \<Rightarrow> (prices option \<times> string) \<times> world" where
  "getAllPrices e config w = tryPriceSources (priceSources e config) w"

section \<open>Historical price resolver\<close>

text \<open>An index expression \<open>xs[i]\<close> of Go: out of range it panics.\<close>

definition index :: "'a list \<Rightarrow> nat \<Rightarrow> error + 'a" where
  "index xs i = (if i < length xs then Inr (xs ! i) else Inl IndexOutOfRange)"

definition getDailyOpenPriceFromBinance :: "env \<Rightarrow> string \<Rightarrow> world \<Rightarrow> (error + float64) \<times> world" where
  "getDailyOpenPriceFromBinance e symbol w =
     (case http (binanceKlines e) (GetBinanceKline symbol ''1d'' 1) w of
        (Inl err, w') \<Rightarrow> (Inl (DailyKlineFailed err), w')
      | (Inr klines, w') \<Rightarrow>
          if length klines = 0 then (Inl NoKlineData, w')
          else (case index (klines ! 0) 1 of
                  Inl panic \<Rightarrow> (Inl panic, w')
                | Inr (JString openPriceStr) \<Rightarrow>
                    (case sscanf_f e openPriceStr of
                       None \<Rightarrow> (Inl OpenPriceParse, w')
                     | Some openPrice \<Rightarrow> (Inr openPrice, w'))
                | Inr other \<Rightarrow> (Inl OpenPriceFormat, w')))"

definition getDailyOpenPriceFromBybit :: "env \<Rightarrow> string \<Rightarrow> world \<Rightarrow> (error + float64) \<times> world" where
  "getDailyOpenPriceFromBybit e symbol w =
     (case http (bybitKlines e) (GetBybitKline symbol ''D'' 1) w of
        (Inl err, w') \<Rightarrow> (Inl (DailyKlineFailed err), w')
      | (Inr result, w') \<Rightarrow>
          if kl_RetCode result \<noteq> 0 then (Inl (ApiError (kl_RetMsg result)), w')
          else if length (kl_List result) = 0 then (Inl NoKlineData, w')
          else (case index (kl_List result ! 0) 1 of
                  Inl panic \<Rightarrow> (Inl panic, w')
                | Inr openPriceStr \<Rightarrow>
                    (case sscanf_f e openPriceStr of
                       None \<Rightarrow> (Inl OpenPriceParse, w')
                     | Some openPrice \<Rightarrow> (Inr openPrice, w'))))"

definition get15mAgoPriceFromBinance :: "env \<Rightarrow> string \<Rightarrow> world \<Rightarrow> (error + float64) \<times> world" where
  "get15mAgoPriceFromBinance e symbol w =
     (case http (binanceKlines e) (GetBinanceKline symbol ''15m'' 2) w of
        (Inl err, w') \<Rightarrow> (Inl (Kline15mFailed err), w')
      | (Inr klines, w') \<Rightarrow>
          if length klines < 2 then (Inl KlineInsufficient, w')
          else (case index (klines ! 1) 4 of
                  Inl panic \<Rightarrow> (Inl panic, w')
                | Inr (JString closePriceStr) \<Rightarrow>
                    (case sscanf_f e closePriceStr of
                       None \<Rightarrow> (Inl ClosePriceParse, w')
                     | Some closePrice \<Rightarrow> (Inr closePrice, w'))
                | Inr other \<Rightarrow> (Inl ClosePriceFormat, w')))"

definition get15mAgoPriceFromBybit :: "env \<Rightarrow> string \<Rightarrow> world \<Rightarrow> (error + float64) \<times> world" where
  "get15mAgoPriceFromBybit e symbol w =
     (case http (bybitKlines e) (GetBybitKline symbol ''15'' 2) w of
        (Inl err, w') \<Rightarrow> (Inl (Kline15mFailed err), w')
      | (Inr result, w') \<Rightarrow>
          if kl_RetCode result \<noteq> 0 then (Inl (ApiError (kl_RetMsg result)), w')
          else if length (kl_List result) < 2 then (Inl KlineInsufficient, w')
          else (case index (kl_List result ! 1) 4 of
                  Inl panic \<Rightarrow> (Inl panic, w')
                | Inr closePriceStr \<Rightarrow>
                    (case sscanf_f e closePriceStr of
                       None \<Rightarrow> (Inl ClosePriceParse, w')
                     | Some closePrice \<Rightarrow> (Inr closePrice, w'))))"

definition getHistoricalPriceFromBinance ::
  "env \<Rightarrow> string \<Rightarrow> string \<Rightarrow> world \<Rightarrow> (error + float64) \<times> world" where
  "getHistoricalPriceFromBinance e symbol period w =
     (if period = ''daily'' then getDailyOpenPriceFromBinance e symbol w
      else if period = ''15m'' then get15mAgoPriceFromBinance e symbol w
      else (Inl (UnknownPeriod period), w))"

definition getHistoricalPriceFromBybit ::
  "env \<Rightarrow> string \<Rightarrow> string \<Rightarrow> world \<Rightarrow> (error + float64) \<times> world" where
  "getHistoricalPriceFromBybit e symbol period w =
     (if period = ''daily'' then getDailyOpenPriceFromBybit e symbol w
      else if period = ''15m'' then get15mAgoPriceFromBybit e symbol w
      else (Inl (UnknownPeriod period), w))"

text \<open>
  The loop of \<open>getHistoricalPrice\<close> over its table of sources. A source that returns an
  error, or a price that is not positive, is passed over in silence; a panic of a
  source is not an error value and ends the loop.
\<close>

type_synonym historySource =
  "string \<times> (string \<Rightarrow> string \<Rightarrow> world \<Rightarrow> (error + float64) \<times> world)"

fun tryHistorySources ::
  "historySource list \<Rightarrow> string \<Rightarrow> string \<Rightarrow> world \<Rightarrow> (error + float64) \<times> world" where
  "tryHistorySources [] symbol period w = (Inl (AllSourcesFailed symbol period), w)"
| "tryHistorySources ((name, fn) # rest) symbol period w =
     (case fn (symbol @ ''USDT'') period w of
        (Inr price, w') \<Rightarrow>
          if price > 0 then (Inr price, w') else tryHistorySources rest symbol period w'
      | (Inl err, w') \<Rightarrow>
          if is_panic err then (Inl err, w') else tryHistorySources rest symbol period w')"

definition historySources :: "env \<Rightarrow> historySource list" where
  "historySources e =
     [(''Binance'', getHistoricalPriceFromBinance e),
      (''Bybit'', getHistoricalPriceFromBybit e)]"

definition getHistoricalPrice ::
  "env \<Rightarrow> string \<Rightarrow> string \<Rightarrow> world \<Rightarrow> (error + float64) \<times> world" where
  "getHistoricalPrice e symbol period w = tryHistorySources (historySources e) symbol period w"

section \<open>Arithmetic of float64\<close>

text \<open>
  The rounding of IEEE 754 binary64, to nearest with ties to even. \<open>ilog2 n x\<close> is the
  exponent of a positive \<open>x\<close>, the \<open>k\<close> with \<open>2 ^ k \<le> x < 2 ^ (k + 1)\<close>, found in at most
  \<open>n\<close> steps; 1100 steps cover every exponent of the format. The quantum of \<open>x\<close> is the
  distance between the \<open>float64\<close> values around \<open>x\<close>: 52 binary places below the
  exponent, and never below the exponent -1022 of the subnormal numbers. \<open>round64 x\<close>
  is the multiple of the quantum nearest to \<open>x\<close>, the even one of two that are equally
  near. A result beyond the largest \<open>float64\<close> is an infinity.
\<close>

definition pow2 :: "int \<Rightarrow> real" where
  "pow2 k = (if k \<ge> 0 then 2 ^ nat k else 1 / 2 ^ nat (- k))"

fun ilog2 :: "nat \<Rightarrow> real \<Rightarrow> int" where
  "ilog2 n x =
     (if n = 0 then 0
      else if x \<ge> 2 then ilog2 (n - 1) (x / 2) + 1
      else if x < 1 then ilog2 (n - 1) (x * 2) - 1
      else 0)"

declare ilog2.simps [simp del]

definition rne :: "real \<Rightarrow> int" where
  "rne x =
     (if x - of_int \<lfloor>x\<rfloor> < 1 / 2 then \<lfloor>x\<rfloor>
      else if x - of_int \<lfloor>x\<rfloor> > 1 / 2 then \<lfloor>x\<rfloor> + 1
      else if even \<lfloor>x\<rfloor> then \<lfloor>x\<rfloor>
      else \<lfloor>x\<rfloor> + 1)"

definition quantum :: "real \<Rightarrow> real" where
  "quantum x = pow2 (max (ilog2 1100 \<bar>x\<bar>) (- 1022) - 52)"

definition round64 :: "real \<Rightarrow> real" where
  "round64 x = (if x = 0 then 0 else of_int (rne (x / quantum x)) * quantum x)"

definition maxFloat64 :: real where
  "maxFloat64 = (2 ^ 53 - 1) * 2 ^ 971"

definition fround :: "real \<Rightarrow> fval" where
  "fround x =
     (if round64 x > maxFloat64 then PosInf
      else if round64 x < - maxFloat64 then NegInf
      else Finite (round64 x))"

text \<open>
  The operations of the source on \<open>float64\<close>. The source subtracts two values it has
  read, divides the result by a value it has read and multiplies the result by the
  constant 100, so the second operand is always finite.
\<close>

definition fsub :: "float64 \<Rightarrow> float64 \<Rightarrow> fval" where
  "fsub a b = fround (a - b)"

fun fdiv :: "fval \<Rightarrow> float64 \<Rightarrow> fval" where
  "fdiv (Finite a) b =
     (if b = 0 then (if a = 0 then NaN else if a > 0 then PosInf else NegInf)
      else fround (a / b))"
| "fdiv PosInf b = (if b < 0 then NegInf else PosInf)"
| "fdiv NegInf b = (if b < 0 then PosInf else NegInf)"
| "fdiv NaN b = NaN"

fun fmul :: "fval \<Rightarrow> float64 \<Rightarrow> fval" where
  "fmul (Finite a) b = fround (a * b)"
| "fmul PosInf b = (if b = 0 then NaN else if b < 0 then NegInf else PosInf)"
| "fmul NegInf b = (if b = 0 then NaN else if b < 0 then PosInf else NegInf)"
| "fmul NaN b = NaN"

fun fneg :: "fval \<Rightarrow> fval" where
  "fneg (Finite a) = Finite (- a)"
| "fneg PosInf = NegInf"
| "fneg NegInf = PosInf"
| "fneg NaN = NaN"

text \<open>The comparisons \<open><\<close> and \<open>\<le>\<close> of \<open>float64\<close>: false whenever an operand is NaN.\<close>

fun fless :: "fval \<Rightarrow> fval \<Rightarrow> bool" where
  "fless (Finite a) (Finite b) = (a < b)"
| "fless (Finite a) PosInf = True"
| "fless NegInf (Finite b) = True"
| "fless NegInf PosInf = True"
| "fless _ _ = False"

fun fle :: "fval \<Rightarrow> fval \<Rightarrow> bool" where
  "fle (Finite a) (Finite b) = (a \<le> b)"
| "fle (Finite a) PosInf = True"
| "fle NegInf (Finite b) = True"
| "fle NegInf NegInf = True"
| "fle NegInf PosInf = True"
| "fle PosInf PosInf = True"
| "fle _ _ = False"

section \<open>Rule evaluator\<close>

definition symbolKey :: "string \<Rightarrow> string" where
  "symbolKey symbol = symbol @ ''USDT''"

text \<open>
  The message that \<open>checkPriceAlerts\<close> builds for a rule and the price found; \<open>None\<close>
  is the empty string, which makes the source emit nothing.
\<close>

definition priceMessage :: "PriceAlertRule \<Rightarrow> float64 \<Rightarrow> message option" where
  "priceMessage rule price =
     (if pr_Comparison rule = Below \<and> price < pr_Threshold rule
        then Some (FellBelow (pr_Threshold rule))
      else if pr_Comparison rule = Above \<and> price > pr_Threshold rule
        then Some (RoseAbove (pr_Threshold rule))
      else None)"

fun checkPriceLoop :: "PriceAlertRule list \<Rightarrow> prices \<Rightarrow> AlertInfo list \<Rightarrow> AlertInfo list" where
  "checkPriceLoop [] prices triggered = triggered"
| "checkPriceLoop (rule # rest) prices triggered =
     (case Mapping.lookup prices (symbolKey (pr_Symbol rule)) of
        None \<Rightarrow> checkPriceLoop rest prices triggered
      | Some price \<Rightarrow>
          (case priceMessage rule price of
             None \<Rightarrow> checkPriceLoop rest prices triggered
           | Some message \<Rightarrow>
               checkPriceLoop rest prices
                 (triggered @ [\<lparr>Symbol = pr_Symbol rule, AlertType = ''price'',
                                CurrentPrice = price, Message = message\<rparr>])))"

text \<open>
  \<open>checkPriceAlerts\<close> runs in the state of the program like every function of main.go;
  it returns that state as it found it.
\<close>

definition checkPriceAlerts :: "Config \<Rightarrow> prices \<Rightarrow> world \<Rightarrow> AlertInfo list \<times> world" where
  "checkPriceAlerts config prices w = (checkPriceLoop (PriceAlertRules config) prices [], w)"

text \<open>The function \<open>abs\<close> of the source, which \<open>checkChangeAlerts\<close> applies to the
  change it has computed.\<close>

definition abs_float :: "fval \<Rightarrow> fval" where
  "abs_float x = (if fless x (Finite 0) then fneg x else x)"

definition second :: Duration where
  "second = 1000000000"

definition minute :: Duration where
  "minute = 60 * second"

definition minDuration :: Duration where
  "minDuration = - (2 ^ 63)"

definition maxDuration :: Duration where
  "maxDuration = 2 ^ 63 - 1"

text \<open>\<open>t.Sub(u)\<close>: the difference, or the smallest or largest \<open>Duration\<close> when the
  difference does not fit in 64 bits.\<close>

definition time_Sub :: "Time \<Rightarrow> Time \<Rightarrow> Duration" where
  "time_Sub t u =
     (if t - u < minDuration then minDuration
      else if t - u > maxDuration then maxDuration
      else t - u)"

text \<open>
  \<open>t.Format(time.RFC3339)\<close> drops the fraction of the second; \<open>time.Parse\<close> of such a
  text returns that second and no error, so the test \<open>err == nil\<close> of the source holds
  for every entry that the program has written.
\<close>

definition time_Format :: "Time \<Rightarrow> rfc3339" where
  "time_Format t = RFC3339 (t div second)"

fun time_Parse :: "rfc3339 \<Rightarrow> Time" where
  "time_Parse (RFC3339 s) = s * second"

definition alertKey :: "ChangeAlertRule \<Rightarrow> string" where
  "alertKey rule = symbolKey (cr_Symbol rule) @ ''_'' @ cr_Period rule"

text \<open>\<open>changePercent := (currentPrice - basePrice) / basePrice * 100\<close>, each operation
  rounded.\<close>

definition changePercent :: "float64 \<Rightarrow> float64 \<Rightarrow> fval" where
  "changePercent currentPrice basePrice =
     fmul (fdiv (fsub currentPrice basePrice) basePrice) 100"

text \<open>
  The label of the period in the message: two fixed texts of the source (given by
  their bytes in UTF-8), or the period itself.
\<close>

definition periodLabel :: "string \<Rightarrow> string" where
  "periodLabel period =
     (if period = ''daily''
        then [CHR 0xE5, CHR 0xBD, CHR 0x93, CHR 0xE6, CHR 0x97, CHR 0xA5]
      else if period = ''15m''
        then ''15'' @ [CHR 0xE5, CHR 0x88, CHR 0x86, CHR 0xE9, CHR 0x92, CHR 0x9F]
      else period)"

text \<open>The test of the cooldown: an entry under the key, younger than the window.\<close>

definition inCooldown :: "PriceHistory \<Rightarrow> string \<Rightarrow> Time \<Rightarrow> Duration \<Rightarrow> bool" where
  "inCooldown history key now alertCooldown =
     (case Mapping.lookup (lastAlertTime history) key of
        None \<Rightarrow> False
      | Some lastAlertTimeStr \<Rightarrow> time_Sub now (time_Parse lastAlertTimeStr) < alertCooldown)"

text \<open>
  The body of the loop of \<open>checkChangeAlerts\<close> for one rule: the alerts collected so
  far and the state go in, and come out as the rule leaves them. \<open>Inl\<close> is a panic
  of the resolver. In the message the direction is \<open>True\<close> for a rise; the other
  values are the label of the period, the size of the change, the base price and the
  current price.
\<close>

definition checkChangeRule ::
  "env \<Rightarrow> prices \<Rightarrow> Duration \<Rightarrow> Time \<Rightarrow> ChangeAlertRule \<Rightarrow> AlertInfo list \<Rightarrow> world
     \<Rightarrow> (error + AlertInfo list) \<times> world" where
  "checkChangeRule e prices alertCooldown now rule triggered w =
     (case Mapping.lookup prices (symbolKey (cr_Symbol rule)) of
        None \<Rightarrow> (Inr triggered, w)
      | Some currentPrice \<Rightarrow>
          (case getHistoricalPrice e (cr_Symbol rule) (cr_Period rule) w of
             (Inl err, w') \<Rightarrow> if is_panic err then (Inl err, w') else (Inr triggered, w')
           | (Inr basePrice, w') \<Rightarrow>
               if fle (Finite (cr_ChangePercent rule))
                    (abs_float (changePercent currentPrice basePrice)) then
                 if inCooldown (priceHistory w') (alertKey rule) now alertCooldown
                 then (Inr triggered, w')
                 else
                   (Inr (triggered @
                      [\<lparr>Symbol = cr_Symbol rule, AlertType = ''change'',
                        CurrentPrice = currentPrice,
                        Message = Changed (periodLabel (cr_Period rule))
                          (fless (Finite 0) (changePercent currentPrice basePrice))
                          (abs_float (changePercent currentPrice basePrice))
                          basePrice currentPrice\<rparr>]),
                    w'\<lparr>priceHistory := (priceHistory w')
                         \<lparr>lastAlertTime :=
                            Mapping.update (alertKey rule) (time_Format now)
                              (lastAlertTime (priceHistory w'))\<rparr>\<rparr>)
               else (Inr triggered, w')))"

fun checkChangeLoop ::
  "env \<Rightarrow> prices \<Rightarrow> Duration \<Rightarrow> Time \<Rightarrow> ChangeAlertRule list \<Rightarrow> AlertInfo list \<Rightarrow> world
     \<Rightarrow> (error + AlertInfo list) \<times> world" where
  "checkChangeLoop e prices alertCooldown now [] triggered w = (Inr triggered, w)"
| "checkChangeLoop e prices alertCooldown now (rule # rest) triggered w =
     (case checkChangeRule e prices alertCooldown now rule triggered w of
        (Inl panic, w') \<Rightarrow> (Inl panic, w')
      | (Inr triggered', w') \<Rightarrow> checkChangeLoop e prices alertCooldown now rest triggered' w')"

text \<open>\<open>now\<close> is what \<open>time.Now()\<close> returns at the start of \<open>checkChangeAlerts\<close>.\<close>

definition checkChangeAlerts ::
  "env \<Rightarrow> Config \<Rightarrow> prices \<Rightarrow> Duration \<Rightarrow> Time \<Rightarrow> world \<Rightarrow> (error + AlertInfo list) \<times> world" where
  "checkChangeAlerts e config prices alertCooldown now w =
     checkChangeLoop e prices alertCooldown now (ChangeAlertRules config) [] w"

section \<open>Notification and the monitoring loop\<close>

definition sendAlerts :: "env \<Rightarrow> AlertInfo list \<Rightarrow> world \<Rightarrow> error option \<times> world" where
  "sendAlerts e triggered w =
     (if length triggered = 0 then (None, w)
      else (case http (ntfyPost e) (PostNtfy triggered) w of
              (Some err, w') \<Rightarrow> (Some (PushFailed err), w')
            | (None, w') \<Rightarrow> (None, w')))"

text \<open>
  \<open>logCurrentPrices\<close> writes to the log only, but it resolves the two historical prices
  of every monitored symbol that the snapshot holds, so it sends requests and may panic.
\<close>

fun logLoop :: "env \<Rightarrow> string list \<Rightarrow> prices \<Rightarrow> world \<Rightarrow> error option \<times> world" where
  "logLoop e [] prices w = (None, w)"
| "logLoop e (symbol # rest) prices w =
     (case Mapping.lookup prices (symbolKey symbol) of
        None \<Rightarrow> logLoop e rest prices w
      | Some price \<Rightarrow>
          (case getHistoricalPrice e symbol ''daily'' w of
             (dailyOpen, w') \<Rightarrow>
               if (case dailyOpen of Inl err \<Rightarrow> is_panic err | Inr p \<Rightarrow> False)
               then (Some IndexOutOfRange, w')
               else (case getHistoricalPrice e symbol ''15m'' w' of
                       (price15m, w'') \<Rightarrow>
                         if (case price15m of Inl err \<Rightarrow> is_panic err | Inr p \<Rightarrow> False)
                         then (Some IndexOutOfRange, w'')
                         else logLoop e rest prices w'')))"

definition logCurrentPrices :: "env \<Rightarrow> Config \<Rightarrow> prices \<Rightarrow> world \<Rightarrow> error option \<times> world" where
  "logCurrentPrices e config prices w = logLoop e (rangeOrder e (requests w) (symbols config)) prices w"

text \<open>
  The zero value of \<open>time.Time\<close>, with which the loop's variable \<open>lastAlertTime\<close> starts:
  1 January of the year 1, in nanoseconds before 1970.
\<close>

definition zeroTime :: Time where
  "zeroTime = - 62135596800 * second"

text \<open>The three readings of the clock in one pass of the loop, in the order of the
  source: \<open>time.Now()\<close> in \<open>checkChangeAlerts\<close>, \<open>time.Since\<close> at the gate of the price
  alerts, \<open>time.Now()\<close> after their send.\<close>

record clock =
  t_eval :: Time
  t_gate :: Time
  t_sent :: Time

text \<open>
  Step 4 of the loop: the price alerts and the variable \<open>lastAlertTime\<close> of
  \<open>monitorCryptoPrices\<close>, which the step returns.
\<close>

definition sendPriceAlerts ::
  "env \<Rightarrow> Duration \<Rightarrow> clock \<Rightarrow> AlertInfo list \<Rightarrow> Time \<Rightarrow> world \<Rightarrow> Time \<times> world" where
  "sendPriceAlerts e alertCooldown c priceAlerts lastAlert w =
     (if length priceAlerts > 0 then
        if time_Sub (t_gate c) lastAlert > alertCooldown then
          (case sendAlerts e priceAlerts w of
             (Some err, w') \<Rightarrow> (lastAlert, w')
           | (None, w') \<Rightarrow> (t_sent c, w'))
        else (lastAlert, w)
      else (lastAlert, w))"

text \<open>Step 6 of the loop: the change alerts; an error of the send is logged.\<close>

definition sendChangeAlerts :: "env \<Rightarrow> AlertInfo list \<Rightarrow> world \<Rightarrow> world" where
  "sendChangeAlerts e changeAlerts w =
     (if length changeAlerts > 0 then snd (sendAlerts e changeAlerts w) else w)"

text \<open>
  One pass of the loop of \<open>monitorCryptoPrices\<close>. It returns the variable
  \<open>lastAlertTime\<close> for the next pass, or \<open>Inl\<close> when the pass panics.
\<close>

definition tick ::
  "env \<Rightarrow> Config \<Rightarrow> Duration \<Rightarrow> clock \<Rightarrow> Time \<Rightarrow> world \<Rightarrow> (error + Time) \<times> world" where
  "tick e config alertCooldown c lastAlert w =
     (case getAllPrices e config w of
        ((None, source), w1) \<Rightarrow> (Inr lastAlert, w1)
      | ((Some prices, source), w1) \<Rightarrow>
          (case checkPriceAlerts config prices w1 of
             (priceAlerts, w2) \<Rightarrow>
               (case checkChangeAlerts e config prices alertCooldown (t_eval c) w2 of
                  (Inl panic, w3) \<Rightarrow> (Inl panic, w3)
                | (Inr changeAlerts, w3) \<Rightarrow>
                    (case sendPriceAlerts e alertCooldown c priceAlerts lastAlert w3 of
                       (lastAlert', w4) \<Rightarrow>
                         (case logCurrentPrices e config prices
                                 (sendChangeAlerts e changeAlerts w4) of
                            (Some panic, w6) \<Rightarrow> (Inl panic, w6)
                          | (None, w6) \<Rightarrow> (Inr lastAlert', w6))))))"

section \<open>Notions used in the statements\<close>

text \<open>
  A request that sends a notification. Two relations between a state and a later one:
  \<open>getsOnly\<close>, no notification was sent and \<open>priceHistory\<close> is the same; \<open>grows\<close>,
  \<open>priceHistory\<close> is the same and the requests of the earlier state come first in the
  later one.
\<close>

fun isPost :: "request \<Rightarrow> bool" where
  "isPost (PostNtfy alerts) = True"
| "isPost _ = False"

definition getsOnly :: "world \<Rightarrow> world \<Rightarrow> bool" where
  "getsOnly w w' \<longleftrightarrow>
     priceHistory w' = priceHistory w \<and>
     filter isPost (requests w') = filter isPost (requests w)"

definition grows :: "world \<Rightarrow> world \<Rightarrow> bool" where
  "grows w w' \<longleftrightarrow>
     priceHistory w' = priceHistory w \<and> (\<exists>rest. requests w' = requests w @ rest)"

text \<open>
  The test of \<open>getAllPrices\<close> on what a source returns (\<open>err == nil\<close> and
  \<open>len(prices) > 0\<close>), and the snapshot of a result.
\<close>

definition accepted :: "error + prices \<Rightarrow> bool" where
  "accepted r = (case r of Inl err \<Rightarrow> False | Inr prices \<Rightarrow> \<not> Mapping.is_empty prices)"

definition snapshot :: "error + prices \<Rightarrow> prices option" where
  "snapshot r = (case r of Inl err \<Rightarrow> None | Inr prices \<Rightarrow> Some prices)"

text \<open>
  The records of a ticker list that a bulk adapter keeps: those whose price text parses,
  each as its symbol and its price, in the order of the list.
\<close>

definition keptRecords ::
  "('t \<Rightarrow> string) \<Rightarrow> ('t \<Rightarrow> float64 option) \<Rightarrow> 't list \<Rightarrow> (string \<times> float64) list" where
  "keptRecords key parse tickers =
     List.map_filter (\<lambda>t. map_option (Pair (key t)) (parse t)) tickers"

text \<open>
  A price crosses the threshold of a rule: the comparison is \<open><\<close> and the price is below
  the threshold, or the comparison is \<open>>\<close> and the price is above it. \<open>priceAlert\<close> is the
  alert of a rule at a price.
\<close>

definition crosses :: "PriceAlertRule \<Rightarrow> float64 \<Rightarrow> bool" where
  "crosses rule price \<longleftrightarrow>
     pr_Comparison rule = ''<'' \<and> price < pr_Threshold rule \<or>
     pr_Comparison rule = ''>'' \<and> price > pr_Threshold rule"

definition priceAlert :: "PriceAlertRule \<Rightarrow> float64 \<Rightarrow> AlertInfo" where
  "priceAlert rule price =
     \<lparr>Symbol = pr_Symbol rule, AlertType = ''price'', CurrentPrice = price,
      Message = (if pr_Comparison rule = ''<'' then FellBelow (pr_Threshold rule)
                 else RoseAbove (pr_Threshold rule))\<rparr>"

text \<open>
  The alert of a change rule at a current price and a base price, and the state after
  the time \<open>now\<close> is recorded under a key.
\<close>

definition changeAlert :: "ChangeAlertRule \<Rightarrow> float64 \<Rightarrow> float64 \<Rightarrow> AlertInfo" where
  "changeAlert rule currentPrice basePrice =
     \<lparr>Symbol = cr_Symbol rule, AlertType = ''change'', CurrentPrice = currentPrice,
      Message = Changed (periodLabel (cr_Period rule))
                  (fless (Finite 0) (changePercent currentPrice basePrice))
                  (abs_float (changePercent currentPrice basePrice))
                  basePrice currentPrice\<rparr>"

definition recorded :: "string \<Rightarrow> Time \<Rightarrow> world \<Rightarrow> world" where
  "recorded key now w =
     w\<lparr>priceHistory := (priceHistory w)
        \<lparr>lastAlertTime := Mapping.update key (time_Format now) (lastAlertTime (priceHistory w))\<rparr>\<rparr>"

text \<open>
  The keys under which a call of \<open>checkChangeAlerts\<close> adds an alert: the alert keys of
  the rules whose pass through the loop adds an alert, each rule taken in the state the
  rules before it have left.
\<close>

fun firedKeys ::
  "env \<Rightarrow> prices \<Rightarrow> Duration \<Rightarrow> Time \<Rightarrow> ChangeAlertRule list \<Rightarrow> world \<Rightarrow> string list" where
  "firedKeys e prices alertCooldown now [] w = []"
| "firedKeys e prices alertCooldown now (rule # rest) w =
     (case checkChangeRule e prices alertCooldown now rule [] w of
        (Inl panic, w') \<Rightarrow> []
      | (Inr [], w') \<Rightarrow> firedKeys e prices alertCooldown now rest w'
      | (Inr (alert # alerts), w') \<Rightarrow>
          alertKey rule # firedKeys e prices alertCooldown now rest w')"

text \<open>
  What \<open>checkChangeAlerts\<close> returns when the rules up to some rule have left the alerts
  \<open>alerts\<close> and the state \<open>w\<close>: the alerts that the rest of the rules adds come after
  \<open>alerts\<close>, and a panic of the rest is the result.
\<close>

definition continued ::
  "env \<Rightarrow> Config \<Rightarrow> prices \<Rightarrow> Duration \<Rightarrow> Time \<Rightarrow> ChangeAlertRule list \<Rightarrow> AlertInfo list
     \<Rightarrow> world \<Rightarrow> (error + AlertInfo list) \<times> world" where
  "continued e config prices alertCooldown now rest alerts w =
     (case checkChangeAlerts e (config\<lparr>ChangeAlertRules := rest\<rparr>) prices alertCooldown now w of
        (Inl panic, w') \<Rightarrow> (Inl panic, w')
      | (Inr added, w') \<Rightarrow> (Inr (alerts @ added), w'))"

section \<open>Environments of the examples\<close>

text \<open>
  The examples need a value for \<open>fmt.Sscanf\<close>. \<open>sscanf_digits\<close> reads a text made of
  decimal digits and fails on every other text; the examples apply it to such numerals
  and to the text \<open>bad\<close> only, where \<open>fmt.Sscanf\<close> does the same.
\<close>

definition digit :: "char \<Rightarrow> nat option" where
  "digit = map_of [(CHR ''0'', 0), (CHR ''1'', 1), (CHR ''2'', 2), (CHR ''3'', 3), (CHR ''4'', 4),
                   (CHR ''5'', 5), (CHR ''6'', 6), (CHR ''7'', 7), (CHR ''8'', 8), (CHR ''9'', 9)]"

fun digitsVal :: "string \<Rightarrow> nat \<Rightarrow> nat option" where
  "digitsVal [] acc = Some acc"
| "digitsVal (c # cs) acc =
     (case digit c of None \<Rightarrow> None | Some d \<Rightarrow> digitsVal cs (10 * acc + d))"

definition sscanf_digits :: "string \<Rightarrow> float64 option" where
  "sscanf_digits s = (if s = [] then None else map_option real (digitsVal s 0))"

text \<open>No endpoint answers.\<close>

definition offline :: env where
  "offline =
     \<lparr>sscanf_f = sscanf_digits,
      binanceTickers = (\<lambda>h r. Inl ''timeout''),
      bybitTickers = (\<lambda>h r. Inl ''timeout''),
      coinbaseSpot = (\<lambda>h r. Inl ''timeout''),
      krakenTicker = (\<lambda>h r. Inl ''timeout''),
      binanceKlines = (\<lambda>h r. Inl ''timeout''),
      bybitKlines = (\<lambda>h r. Inl ''timeout''),
      ntfyPost = (\<lambda>h r. Some ''timeout''),
      rangeOrder = (\<lambda>h keys. keys)\<rparr>"

text \<open>
  The state in which \<open>main\<close> starts the loop, and a configuration without rules.
\<close>

definition start :: world where
  "start = \<lparr>priceHistory = \<lparr>lastAlertTime = Mapping.empty, priceAlertTime = zeroTime\<rparr>,
            requests = []\<rparr>"

definition noRules :: Config where
  "noRules = \<lparr>PriceAlertRules = [], ChangeAlertRules = []\<rparr>"

text \<open>Binance is down, Bybit answers with one ticker.\<close>

definition bybitOnly :: env where
  "bybitOnly = offline\<lparr>bybitTickers :=
     (\<lambda>h r. Inr \<lparr>by_List = [\<lparr>by_Symbol = ''BTCUSDT'', by_LastPrice = ''65000''\<rparr>],
                 by_RetCode = 0, by_RetMsg = ''OK''\<rparr>)\<rparr>"

text \<open>Binance and Bybit answer; the price of ETHUSDT is not a number.\<close>

definition twoTickers :: env where
  "twoTickers = offline
     \<lparr>binanceTickers := (\<lambda>h r. Inr [\<lparr>bn_Symbol = ''BTCUSDT'', bn_Price = ''65000''\<rparr>,
                                     \<lparr>bn_Symbol = ''ETHUSDT'', bn_Price = ''bad''\<rparr>]),
      bybitTickers := (\<lambda>h r. Inr \<lparr>by_List = [\<lparr>by_Symbol = ''ETHUSDT'', by_LastPrice = ''bad''\<rparr>],
                                   by_RetCode = 0, by_RetMsg = ''OK''\<rparr>)\<rparr>"

text \<open>
  A Binance kline with its open time and its close price, and the answer of Binance to
  a request for two klines: Binance lists klines by ascending open time, so the second
  one is the candle in progress.
\<close>

definition candle :: "real \<Rightarrow> string \<Rightarrow> BinanceKline" where
  "candle openTime closePrice =
     [JNumber openTime, JString ''100'', JString ''300'', JString ''50'', JString closePrice,
      JString ''7'']"

definition binanceTwoCandles :: env where
  "binanceTwoCandles = offline
     \<lparr>binanceKlines := (\<lambda>h r. Inr [candle 0 ''100'', candle 900000 ''200''])\<rparr>"

text \<open>Four threshold rules and a snapshot: BTC is below its threshold, ETH at its
  threshold, SOL above its threshold, XRP is not in the snapshot.\<close>

definition thresholds :: Config where
  "thresholds =
     \<lparr>PriceAlertRules =
        [\<lparr>pr_Symbol = ''BTC'', pr_Threshold = 60000, pr_Comparison = ''<''\<rparr>,
         \<lparr>pr_Symbol = ''ETH'', pr_Threshold = 70000, pr_Comparison = ''>''\<rparr>,
         \<lparr>pr_Symbol = ''SOL'', pr_Threshold = 150, pr_Comparison = ''>''\<rparr>,
         \<lparr>pr_Symbol = ''XRP'', pr_Threshold = 1, pr_Comparison = ''<''\<rparr>],
      ChangeAlertRules = []\<rparr>"

definition somePrices :: prices where
  "somePrices =
     Mapping.update ''BTCUSDT'' 59000
       (Mapping.update ''ETHUSDT'' 70000
          (Mapping.update ''SOLUSDT'' 151 Mapping.empty))"

text \<open>
  A daily kline of Binance with its open price. In \<open>zeroThenBybit\<close> Binance reports the
  open price 0 and Bybit the open price 200; in \<open>zeroOnly\<close> Binance reports 0 and
  Bybit does not answer.
\<close>

definition dailyKline :: "string \<Rightarrow> BinanceKline" where
  "dailyKline openPrice =
     [JNumber 0, JString openPrice, JString ''300'', JString ''50'', JString ''210'',
      JString ''7'']"

definition zeroThenBybit :: env where
  "zeroThenBybit = offline
     \<lparr>binanceKlines := (\<lambda>h r. Inr [dailyKline ''0'']),
      bybitKlines := (\<lambda>h r. Inr \<lparr>kl_List = [[''0'', ''200'', ''300'', ''50'', ''210'', ''7'', ''9'']],
                                  kl_RetCode = 0, kl_RetMsg = ''OK''\<rparr>)\<rparr>"

definition zeroOnly :: env where
  "zeroOnly = offline\<lparr>binanceKlines := (\<lambda>h r. Inr [dailyKline ''0''])\<rparr>"

text \<open>
  The rule of the examples (ETH, 5 per cent, daily), and snapshots with ETH at 210 and
  at 209.
\<close>

definition ethDaily :: ChangeAlertRule where
  "ethDaily = \<lparr>cr_Symbol = ''ETH'', cr_ChangePercent = 5, cr_Period = ''daily''\<rparr>"

definition eth210 :: prices where
  "eth210 = Mapping.update ''ETHUSDT'' 210 Mapping.empty"

definition eth209 :: prices where
  "eth209 = Mapping.update ''ETHUSDT'' 209 Mapping.empty"

text \<open>Binance reports the open price 200 of the day.\<close>

definition open200 :: env where
  "open200 = offline\<lparr>binanceKlines := (\<lambda>h r. Inr [dailyKline ''200''])\<rparr>"

text \<open>A time with half a second past the full second, and the state after the base
  price of ETH was asked for and the alert of the key ETHUSDT_daily was recorded at
  that time.\<close>

definition t0 :: Time where
  "t0 = 1700000000500000000"

definition firedOnce :: world where
  "firedOnce = recorded ''ETHUSDT_daily'' t0
     (start\<lparr>requests := [GetBinanceKline ''ETHUSDT'' ''1d'' 1]\<rparr>)"

text \<open>Three change rules: ETH with 5 per cent, BTC with 50 per cent, SOL with 1 per
  cent; a snapshot with ETH at 210 and BTC at 201 and without SOL; a state with an
  entry under the key of BTC.\<close>

definition threeRules :: Config where
  "threeRules =
     \<lparr>PriceAlertRules = [],
      ChangeAlertRules =
        [ethDaily,
         \<lparr>cr_Symbol = ''BTC'', cr_ChangePercent = 50, cr_Period = ''daily''\<rparr>,
         \<lparr>cr_Symbol = ''SOL'', cr_ChangePercent = 1, cr_Period = ''daily''\<rparr>]\<rparr>"

definition ethBtc :: prices where
  "ethBtc = Mapping.update ''ETHUSDT'' 210 (Mapping.update ''BTCUSDT'' 201 Mapping.empty)"


text \<open>
  Binance answers with ETHUSDT at 210 and with the open price 200 of the day; the
  notification endpoint answers as \<open>ntfy\<close> says: \<open>ntfyDown\<close> fails every send, \<open>ntfyUp\<close>
  accepts every send. The rules: ETH above 205, and ETH with 5 per cent over the day.
  The clock of one pass of the loop.
\<close>

definition ethRises :: "(request list \<Rightarrow> request \<Rightarrow> string option) \<Rightarrow> env" where
  "ethRises ntfy = offline
     \<lparr>binanceTickers := (\<lambda>h r. Inr [\<lparr>bn_Symbol = ''ETHUSDT'', bn_Price = ''210''\<rparr>]),
      binanceKlines := (\<lambda>h r. Inr [dailyKline ''200'']),
      ntfyPost := ntfy\<rparr>"

definition ntfyDown :: "request list \<Rightarrow> request \<Rightarrow> string option" where
  "ntfyDown h r = Some ''timeout''"


definition ethRules :: Config where
  "ethRules =
     \<lparr>PriceAlertRules = [\<lparr>pr_Symbol = ''ETH'', pr_Threshold = 205, pr_Comparison = ''>''\<rparr>],
      ChangeAlertRules = [ethDaily]\<rparr>"

definition clock0 :: clock where
  "clock0 = \<lparr>t_eval = t0, t_gate = t0 + 1, t_sent = t0 + 2\<rparr>"


text \<open>Binance reports the open price 100 of the day; a snapshot with ETH at 129; the
  rule ETH with 29 per cent over the day.\<close>

definition open100 :: env where
  "open100 = offline\<lparr>binanceKlines := (\<lambda>h r. Inr [dailyKline ''100''])\<rparr>"

definition eth129 :: prices where
  "eth129 = Mapping.update ''ETHUSDT'' 129 Mapping.empty"

definition eth29 :: ChangeAlertRule where
  "eth29 = \<lparr>cr_Symbol = ''ETH'', cr_ChangePercent = 29, cr_Period = ''daily''\<rparr>"

definition eth29Rules :: Config where
  "eth29Rules = \<lparr>PriceAlertRules = [], ChangeAlertRules = [eth29]\<rparr>"

text \<open>A snapshot with ETH at 190.\<close>

definition eth190 :: prices where
  "eth190 = Mapping.update ''ETHUSDT'' 190 Mapping.empty"

section \<open>Which requests a function sends\<close>

lemma getsOnly_refl [simp]: "getsOnly w w"
  by (simp add: getsOnly_def)

lemma getsOnly_trans: "getsOnly w w' \<Longrightarrow> getsOnly w' w'' \<Longrightarrow> getsOnly w w''"
  by (simp add: getsOnly_def)

lemma http_getsOnly: "\<not> isPost req \<Longrightarrow> http respond req w = (r, w') \<Longrightarrow> getsOnly w w'"
  by (auto simp: http_def getsOnly_def)

lemma getPricesFromBinance_getsOnly: "getPricesFromBinance e w = (r, w') \<Longrightarrow> getsOnly w w'"
  by (auto simp: getPricesFromBinance_def split: prod.splits sum.splits
      dest!: http_getsOnly [rotated])

lemma getPricesFromBybit_getsOnly: "getPricesFromBybit e w = (r, w') \<Longrightarrow> getsOnly w w'"
  by (auto simp: getPricesFromBybit_def split: prod.splits sum.splits
      dest!: http_getsOnly [rotated])

lemma coinbaseLoop_getsOnly: "coinbaseLoop e syms prices w = (r, w') \<Longrightarrow> getsOnly w w'"
proof (induction syms arbitrary: prices w)
  case Nil
  then show ?case by simp
next
  case (Cons s syms)
  obtain a w1 where h: "http (coinbaseSpot e) (GetCoinbase s) w = (a, w1)"
    by (cases "http (coinbaseSpot e) (GetCoinbase s) w")
  then have g: "getsOnly w w1" by (rule http_getsOnly [rotated]) simp
  from Cons.prems h obtain prices' where "coinbaseLoop e syms prices' w1 = (r, w')"
    by (auto split: sum.splits option.splits)
  then have "getsOnly w1 w'" by (rule Cons.IH)
  with g show ?case by (rule getsOnly_trans)
qed

lemma krakenLoop_getsOnly: "krakenLoop e syms prices w = (r, w') \<Longrightarrow> getsOnly w w'"
proof (induction syms arbitrary: prices w)
  case Nil
  then show ?case by simp
next
  case (Cons s syms)
  show ?case
  proof (cases "symbolMap s")
    case None
    with Cons.prems have "krakenLoop e syms prices w = (r, w')" by simp
    then show ?thesis by (rule Cons.IH)
  next
    case (Some ks)
    obtain a w1 where h: "http (krakenTicker e) (GetKraken ks) w = (a, w1)"
      by (cases "http (krakenTicker e) (GetKraken ks) w")
    then have g: "getsOnly w w1" by (rule http_getsOnly [rotated]) simp
    from Cons.prems Some h obtain prices' where "krakenLoop e syms prices' w1 = (r, w')"
      by (auto split: sum.splits option.splits list.splits)
    then have "getsOnly w1 w'" by (rule Cons.IH)
    with g show ?thesis by (rule getsOnly_trans)
  qed
qed

lemma getPricesFromCoinbase_getsOnly:
  "getPricesFromCoinbase e config w = (r, w') \<Longrightarrow> getsOnly w w'"
  by (auto simp: getPricesFromCoinbase_def split: prod.splits if_splits
      dest: coinbaseLoop_getsOnly)

lemma getPricesFromKraken_getsOnly:
  "getPricesFromKraken e config w = (r, w') \<Longrightarrow> getsOnly w w'"
  by (auto simp: getPricesFromKraken_def split: prod.splits if_splits
      dest: krakenLoop_getsOnly)

lemma tryPriceSources_step:
  "tryPriceSources ((name, fn) # rest) w =
     (if accepted (fst (fn w)) then ((snapshot (fst (fn w)), name), snd (fn w))
      else tryPriceSources rest (snd (fn w)))"
  by (simp add: accepted_def snapshot_def split: prod.splits sum.splits)

lemma tryPriceSources_getsOnly:
  "\<forall>(name, fn) \<in> set sources. \<forall>w. getsOnly w (snd (fn w)) \<Longrightarrow>
   getsOnly w (snd (tryPriceSources sources w))"
proof (induction sources arbitrary: w)
  case Nil
  then show ?case by simp
next
  case (Cons s sources)
  obtain name fn where s: "s = (name, fn)" by (cases s)
  from Cons.prems s have g: "getsOnly w (snd (fn w))" by auto
  from Cons.prems have "getsOnly (snd (fn w)) (snd (tryPriceSources sources (snd (fn w))))"
    by (intro Cons.IH) auto
  with g have "getsOnly w (snd (tryPriceSources sources (snd (fn w))))"
    by (rule getsOnly_trans)
  with g s show ?case by (simp add: tryPriceSources_step del: tryPriceSources.simps)
qed

lemma getAllPrices_getsOnly: "getAllPrices e config w = (r, w') \<Longrightarrow> getsOnly w w'"
proof -
  have "getsOnly w (snd (getAllPrices e config w))"
    unfolding getAllPrices_def
    by (rule tryPriceSources_getsOnly)
      (auto simp: priceSources_def
        intro: getPricesFromBinance_getsOnly getPricesFromBybit_getsOnly
          getPricesFromCoinbase_getsOnly getPricesFromKraken_getsOnly prod.collapse [symmetric])
  then show "getAllPrices e config w = (r, w') \<Longrightarrow> getsOnly w w'" by simp
qed

section \<open>The price aggregator\<close>

lemma sscanf_digits_65000 [simp]: "sscanf_digits ''65000'' = Some 65000"
  by (simp add: sscanf_digits_def digit_def)

lemma sscanf_digits_bad [simp]: "sscanf_digits ''bad'' = None"
  by (simp add: sscanf_digits_def digit_def)

lemma coinbaseLoop_requests:
  "requests (snd (coinbaseLoop e syms prices w)) = requests w @ map GetCoinbase syms"
  by (induction syms arbitrary: prices w)
     (auto simp: http_def split: prod.splits sum.splits option.splits)

text \<open>
  Claim C1. \<open>getAllPrices\<close> asks Binance, Bybit, Coinbase and Kraken in this order,
  each in the state the one before has left. It returns the snapshot and the name of
  the first source whose result has no error and a snapshot that is not empty, in the
  state that this source has left: when Binance is taken the only request sent is the
  one to Binance, when Bybit is taken the requests are these two, when Coinbase is
  taken they are these two and the requests to Coinbase. When no source passes the
  test the result is the nil snapshot and the empty name.
\<close>

theorem getAllPrices_first_accepted:
  "getAllPrices e config w =
     (let b = getPricesFromBinance e w;
          y = getPricesFromBybit e (snd b);
          c = getPricesFromCoinbase e config (snd y);
          k = getPricesFromKraken e config (snd c)
      in if accepted (fst b) then ((snapshot (fst b), ''Binance''), snd b)
         else if accepted (fst y) then ((snapshot (fst y), ''Bybit''), snd y)
         else if accepted (fst c) then ((snapshot (fst c), ''Coinbase''), snd c)
         else if accepted (fst k) then ((snapshot (fst k), ''Kraken''), snd k)
         else ((None, ''''), snd k))
   \<and> requests (snd (getPricesFromBinance e w)) = requests w @ [GetBinanceTickers]
   \<and> requests (snd (getPricesFromBybit e (snd (getPricesFromBinance e w)))) =
       requests w @ [GetBinanceTickers, GetBybitTickers]
   \<and> requests (snd (getPricesFromCoinbase e config
         (snd (getPricesFromBybit e (snd (getPricesFromBinance e w)))))) =
       requests w @ [GetBinanceTickers, GetBybitTickers]
         @ map GetCoinbase
             (rangeOrder e (requests w @ [GetBinanceTickers, GetBybitTickers]) (symbols config))"
proof -
  have b: "requests (snd (getPricesFromBinance e w)) = requests w @ [GetBinanceTickers]" for w
    by (simp add: getPricesFromBinance_def http_def split: sum.splits)
  have y: "requests (snd (getPricesFromBybit e w)) = requests w @ [GetBybitTickers]" for w
    by (simp add: getPricesFromBybit_def http_def split: sum.splits)
  have c: "requests (snd (getPricesFromCoinbase e config w)) =
             requests w @ map GetCoinbase (rangeOrder e (requests w) (symbols config))" for w
    using coinbaseLoop_requests [of e "rangeOrder e (requests w) (symbols config)" Mapping.empty w]
    by (auto simp: getPricesFromCoinbase_def split: prod.splits)
  have "getAllPrices e config w =
     (let b = getPricesFromBinance e w;
          y = getPricesFromBybit e (snd b);
          c = getPricesFromCoinbase e config (snd y);
          k = getPricesFromKraken e config (snd c)
      in if accepted (fst b) then ((snapshot (fst b), ''Binance''), snd b)
         else if accepted (fst y) then ((snapshot (fst y), ''Bybit''), snd y)
         else if accepted (fst c) then ((snapshot (fst c), ''Coinbase''), snd c)
         else if accepted (fst k) then ((snapshot (fst k), ''Kraken''), snd k)
         else ((None, ''''), snd k))"
    unfolding getAllPrices_def priceSources_def tryPriceSources_step Let_def
    by simp
  then show ?thesis by (simp add: b y c)
qed

text \<open>The example of the specification: Binance fails, Bybit answers with BTCUSDT at
  65000; the result is that snapshot with the name Bybit, and no request goes to
  Coinbase or Kraken.\<close>

theorem getAllPrices_first_accepted_witness:
  "fst (getAllPrices bybitOnly noRules start) =
     (Some (Mapping.update ''BTCUSDT'' 65000 Mapping.empty), ''Bybit'')
   \<and> requests (snd (getAllPrices bybitOnly noRules start)) =
     [GetBinanceTickers, GetBybitTickers]"
  using getAllPrices_first_accepted [of bybitOnly noRules start]
  by (simp add: Let_def accepted_def snapshot_def bybitOnly_def offline_def start_def
      getPricesFromBinance_def getPricesFromBybit_def http_def)

section \<open>The bulk adapters\<close>

lemma keptRecords_snoc:
  "keptRecords key parse (ts @ [t]) =
     keptRecords key parse ts @ (case parse t of Some p \<Rightarrow> [(key t, p)] | None \<Rightarrow> [])"
  by (simp add: keptRecords_def List.map_filter_def split: option.splits)

lemma keptRecords_keys:
  "fst ` set (keptRecords key parse ts) = key ` {t \<in> set ts. parse t \<noteq> None}"
  by (force simp: keptRecords_def List.map_filter_def)

lemma lookup_collect:
  "Mapping.lookup
     (foldl (\<lambda>prices t. case parse t of Some price \<Rightarrow> Mapping.update (key t) price prices
                                       | None \<Rightarrow> prices) m0 ts) k =
   (case map_of (rev (keptRecords key parse ts)) k of
      Some p \<Rightarrow> Some p
    | None \<Rightarrow> Mapping.lookup m0 k)"
proof (induction ts rule: rev_induct)
  case Nil
  show ?case by (simp add: keptRecords_def List.map_filter_def)
next
  case (snoc t ts)
  show ?case
  proof (cases "parse t")
    case None
    with snoc show ?thesis by (simp add: keptRecords_snoc)
  next
    case (Some p)
    with snoc show ?thesis by (simp add: keptRecords_snoc Mapping.lookup_update')
  qed
qed

lemma collect_from_empty:
  fixes parse :: "'t \<Rightarrow> float64 option" and key :: "'t \<Rightarrow> string" and ts :: "'t list"
  defines "m \<equiv> foldl (\<lambda>prices t. case parse t of
                 Some price \<Rightarrow> Mapping.update (key t) price prices | None \<Rightarrow> prices)
               Mapping.empty ts"
  shows "Mapping.lookup m = map_of (rev (keptRecords key parse ts))"
    and "Mapping.keys m = key ` {t \<in> set ts. parse t \<noteq> None}"
proof -
  show l: "Mapping.lookup m = map_of (rev (keptRecords key parse ts))"
    unfolding m_def by (rule ext) (simp add: lookup_collect split: option.splits)
  have "Mapping.keys m = dom (map_of (rev (keptRecords key parse ts)))"
    by (simp add: keys_dom_lookup l)
  also have "\<dots> = fst ` set (keptRecords key parse ts)"
    by (simp add: dom_map_of_conv_image_fst)
  finally show "Mapping.keys m = key ` {t \<in> set ts. parse t \<noteq> None}"
    by (simp add: keptRecords_keys)
qed

text \<open>
  Claim C9. When the request of \<open>getPricesFromBinance\<close> or of \<open>getPricesFromBybit\<close>
  succeeds, the adapter returns no error, whatever the price texts are. The snapshot it
  returns holds the symbols of the records whose price text parses and no other symbol,
  and gives each symbol the price of the last record of that symbol that parses.
\<close>

theorem bulk_adapters_drop_unparsed:
  "(binanceTickers e (requests w) GetBinanceTickers = Inr tickers \<longrightarrow>
      (\<exists>prices. fst (getPricesFromBinance e w) = Inr prices \<and>
         Mapping.keys prices = bn_Symbol ` {t \<in> set tickers. sscanf_f e (bn_Price t) \<noteq> None} \<and>
         Mapping.lookup prices =
           map_of (rev (keptRecords bn_Symbol (\<lambda>t. sscanf_f e (bn_Price t)) tickers)))) \<and>
   (bybitTickers e (requests w) GetBybitTickers = Inr result \<longrightarrow>
      (\<exists>prices. fst (getPricesFromBybit e w) = Inr prices \<and>
         Mapping.keys prices =
           by_Symbol ` {t \<in> set (by_List result). sscanf_f e (by_LastPrice t) \<noteq> None} \<and>
         Mapping.lookup prices =
           map_of (rev (keptRecords by_Symbol (\<lambda>t. sscanf_f e (by_LastPrice t)) (by_List result)))))"
  by (simp add: getPricesFromBinance_def getPricesFromBybit_def http_def collect_from_empty)

text \<open>Binance answers BTCUSDT at 65000 and ETHUSDT with a text that is no number: the
  snapshot holds BTCUSDT alone. Bybit answers ETHUSDT with such a text only: the
  snapshot is empty, and there is no error.\<close>

theorem bulk_adapters_drop_unparsed_witness:
  "(\<exists>prices. fst (getPricesFromBinance twoTickers start) = Inr prices \<and>
      Mapping.lookup prices = [''BTCUSDT'' \<mapsto> 65000]) \<and>
   (\<exists>prices. fst (getPricesFromBybit twoTickers start) = Inr prices \<and>
      Mapping.lookup prices = Map.empty)"
proof -
  let ?tickers = "[\<lparr>bn_Symbol = ''BTCUSDT'', bn_Price = ''65000''\<rparr>,
                   \<lparr>bn_Symbol = ''ETHUSDT'', bn_Price = ''bad''\<rparr>]"
  let ?result = "\<lparr>by_List = [\<lparr>by_Symbol = ''ETHUSDT'', by_LastPrice = ''bad''\<rparr>],
                  by_RetCode = 0, by_RetMsg = ''OK''\<rparr>"
  have b: "binanceTickers twoTickers (requests start) GetBinanceTickers = Inr ?tickers"
    by (simp add: twoTickers_def offline_def)
  have y: "bybitTickers twoTickers (requests start) GetBybitTickers = Inr ?result"
    by (simp add: twoTickers_def offline_def)
  have s: "sscanf_f twoTickers = sscanf_digits"
    by (simp add: twoTickers_def offline_def)
  note claim = bulk_adapters_drop_unparsed [of twoTickers start ?tickers ?result]
  from claim [THEN conjunct1, THEN mp, OF b] obtain p where
    p: "fst (getPricesFromBinance twoTickers start) = Inr p"
       "Mapping.lookup p =
          map_of (rev (keptRecords bn_Symbol (\<lambda>t. sscanf_f twoTickers (bn_Price t)) ?tickers))"
    by (elim exE conjE)
  from claim [THEN conjunct2, THEN mp, OF y] obtain q where
    q: "fst (getPricesFromBybit twoTickers start) = Inr q"
       "Mapping.lookup q =
          map_of (rev (keptRecords by_Symbol (\<lambda>t. sscanf_f twoTickers (by_LastPrice t))
            (by_List ?result)))"
    by (elim exE conjE)
  have "Mapping.lookup p = [''BTCUSDT'' \<mapsto> 65000]"
    by (simp add: p(2) s keptRecords_def List.map_filter_def)
  moreover have "Mapping.lookup q = Map.empty"
    by (simp add: q(2) s keptRecords_def List.map_filter_def)
  ultimately show ?thesis using p(1) q(1) by simp
qed

section \<open>The price of 15 minutes ago\<close>

lemma sscanf_digits_100 [simp]: "sscanf_digits ''100'' = Some 100"
  by (simp add: sscanf_digits_def digit_def)

lemma sscanf_digits_200 [simp]: "sscanf_digits ''200'' = Some 200"
  by (simp add: sscanf_digits_def digit_def)

text \<open>
  Claim C2. Binance answers the request for two klines of 15 minutes with the candle
  that closed at 100 and, after it, the candle in progress, whose close is 200 so far.
  \<open>get15mAgoPriceFromBinance\<close> returns 200, the close of the most recent candle, and
  not 100, the close of the candle before it.
\<close>

theorem get15mAgoPriceFromBinance_returns_latest_close:
  "binanceKlines binanceTwoCandles [] (GetBinanceKline ''BTCUSDT'' ''15m'' 2) =
     Inr [candle 0 ''100'', candle 900000 ''200''] \<and>
   fst (get15mAgoPriceFromBinance binanceTwoCandles ''BTCUSDT'' start) = Inr 200"
  by (simp add: get15mAgoPriceFromBinance_def binanceTwoCandles_def offline_def start_def
      http_def index_def candle_def)

text \<open>
  In general: of two klines in the order of Binance the function returns the close of
  the later one; of two klines in the order of Bybit, which lists the latest first, the
  close of the earlier one. With fewer than two klines both functions return an error.
\<close>

lemma get15mAgoPriceFromBinance_two_klines:
  "binanceKlines e (requests w) (GetBinanceKline symbol ''15m'' 2) = Inr [previous, latest] \<Longrightarrow>
   index latest 4 = Inr (JString closePriceStr) \<Longrightarrow>
   sscanf_f e closePriceStr = Some closePrice \<Longrightarrow>
   fst (get15mAgoPriceFromBinance e symbol w) = Inr closePrice"
  by (simp add: get15mAgoPriceFromBinance_def http_def)

lemma get15mAgoPriceFromBybit_two_klines:
  "bybitKlines e (requests w) (GetBybitKline symbol ''15'' 2) = Inr result \<Longrightarrow>
   kl_RetCode result = 0 \<Longrightarrow>
   kl_List result = [latest, previous] \<Longrightarrow>
   index previous 4 = Inr closePriceStr \<Longrightarrow>
   sscanf_f e closePriceStr = Some closePrice \<Longrightarrow>
   fst (get15mAgoPriceFromBybit e symbol w) = Inr closePrice"
  by (simp add: get15mAgoPriceFromBybit_def http_def)

lemma get15mAgoPrice_fewer_than_two:
  "(binanceKlines e (requests w) (GetBinanceKline symbol ''15m'' 2) = Inr klines \<longrightarrow>
      length klines < 2 \<longrightarrow>
      fst (get15mAgoPriceFromBinance e symbol w) = Inl KlineInsufficient) \<and>
   (bybitKlines e (requests w) (GetBybitKline symbol ''15'' 2) = Inr result \<longrightarrow>
      length (kl_List result) < 2 \<longrightarrow>
      (\<exists>err. fst (get15mAgoPriceFromBybit e symbol w) = Inl err \<and> \<not> is_panic err))"
  by (simp add: get15mAgoPriceFromBinance_def get15mAgoPriceFromBybit_def http_def)

section \<open>The threshold rules\<close>

lemma priceMessage_crosses:
  "priceMessage rule price =
     (if crosses rule price then Some (Message (priceAlert rule price)) else None)"
  by (auto simp: priceMessage_def crosses_def priceAlert_def Below_def Above_def)

lemma checkPriceLoop_concat:
  "checkPriceLoop rules prices triggered =
     triggered @ concat (map (\<lambda>rule.
        case Mapping.lookup prices (pr_Symbol rule @ ''USDT'') of
          None \<Rightarrow> []
        | Some price \<Rightarrow> if crosses rule price then [priceAlert rule price] else []) rules)"
proof (induction rules arbitrary: triggered)
  case Nil
  show ?case by simp
next
  case (Cons rule rules)
  show ?case
    by (simp add: Cons.IH symbolKey_def priceMessage_crosses priceAlert_def
        split: option.splits)
qed

text \<open>
  Claim C4. \<open>checkPriceAlerts\<close> returns, in the order of the rules, one alert for each
  rule whose key (the symbol followed by USDT) is in the snapshot with a price that
  crosses the threshold of the rule, and nothing for any other rule: no alert when the
  key is absent, no alert when the comparison is neither \<open><\<close> nor \<open>>\<close>. The price
  that equals the threshold does not cross it, whatever the comparison.
\<close>

theorem checkPriceAlerts_strict_crossing:
  "fst (checkPriceAlerts config prices w) =
     concat (map (\<lambda>rule.
        case Mapping.lookup prices (pr_Symbol rule @ ''USDT'') of
          None \<Rightarrow> []
        | Some price \<Rightarrow> if crosses rule price then [priceAlert rule price] else [])
       (PriceAlertRules config))
   \<and> \<not> crosses rule (pr_Threshold rule)"
  by (simp add: checkPriceAlerts_def checkPriceLoop_concat crosses_def)

text \<open>BTC at 59000 under the rule below 60000 gives an alert, ETH at 70000 under the
  rule above 70000 gives none, SOL at 151 under the rule above 150 gives one, and XRP,
  which the snapshot lacks, gives none.\<close>

theorem checkPriceAlerts_strict_crossing_witness:
  "fst (checkPriceAlerts thresholds somePrices start) =
     [\<lparr>Symbol = ''BTC'', AlertType = ''price'', CurrentPrice = 59000,
       Message = FellBelow 60000\<rparr>,
      \<lparr>Symbol = ''SOL'', AlertType = ''price'', CurrentPrice = 151,
       Message = RoseAbove 150\<rparr>]"
  using checkPriceAlerts_strict_crossing [of thresholds somePrices start]
  by (simp add: thresholds_def somePrices_def crosses_def priceAlert_def)

section \<open>The historical price and one change rule\<close>

text \<open>The changes of the examples, computed with the rounding of \<open>float64\<close>: 210 over
  200 is 5, 209 over 200 is 4.5, 201 over 200 is 0.5, and 129 over 100 is just below 29
  (0.29 is not a \<open>float64\<close>; the nearest one, times 100, rounds to 29 - 2 ^ -48).\<close>

lemmas float_eval =
  changePercent_def fsub_def fround_def round64_def quantum_def rne_def pow2_def
  maxFloat64_def ilog2.simps

lemma changePercent_210_200 [simp]: "changePercent 210 200 = Finite 5"
  by (simp add: float_eval)

lemma changePercent_209_200 [simp]: "changePercent 209 200 = Finite (9 / 2)"
  by (simp add: float_eval)

lemma changePercent_201_200 [simp]: "changePercent 201 200 = Finite (1 / 2)"
  by (simp add: float_eval)

lemma changePercent_129_100 [simp]:
  "changePercent 129 100 = Finite (8162774324609023 / 281474976710656)"
  by (simp add: float_eval)

lemma abs_float_Finite [simp]: "abs_float (Finite x) = Finite \<bar>x\<bar>"
  by (simp add: abs_float_def)

text \<open>
  The rounded value is within half a quantum of the exact one. Some known values: the
  \<open>float64\<close> nearest to 1/10; numbers of the format are their own rounding; \<open>2 ^ 53 + 1\<close>
  lies halfway between two numbers of the format and goes to the even one.
\<close>

lemma quantum_pos: "0 < quantum x"
  by (simp add: quantum_def pow2_def)

lemma rne_near: "\<bar>of_int (rne y) - y\<bar> \<le> 1 / 2"
  by (simp add: rne_def)

lemma round64_nearest: "\<bar>round64 x - x\<bar> \<le> quantum x / 2"
proof (cases "x = 0")
  case True
  then show ?thesis using quantum_pos [of x] by (simp add: round64_def)
next
  case False
  have "round64 x - x = (of_int (rne (x / quantum x)) - x / quantum x) * quantum x"
    using quantum_pos [of x] False by (simp add: round64_def field_simps)
  then have "\<bar>round64 x - x\<bar> = \<bar>of_int (rne (x / quantum x)) - x / quantum x\<bar> * quantum x"
    using quantum_pos [of x] by (simp add: abs_mult)
  also have "\<dots> \<le> 1 / 2 * quantum x"
    using rne_near [of "x / quantum x"] quantum_pos [of x]
    by (intro mult_right_mono) simp_all
  finally show ?thesis by simp
qed

lemma round64_tenth: "round64 (1 / 10) = 3602879701896397 / 2 ^ 55"
  by (simp add: round64_def quantum_def rne_def pow2_def ilog2.simps)

lemma round64_representable:
  "round64 (1 / 2) = 1 / 2" "round64 100 = 100" "round64 (- 3 / 4) = - 3 / 4"
  "round64 (2 ^ 53 + 1) = 2 ^ 53" "round64 (2 ^ 53 + 3) = 2 ^ 53 + 4"
  by (simp_all add: round64_def quantum_def rne_def pow2_def ilog2.simps)

lemma sscanf_digits_0 [simp]: "sscanf_digits ''0'' = Some 0"
  by (simp add: sscanf_digits_def digit_def)

lemma getHistoricalPrice_unfold:
  "getHistoricalPrice e symbol period w =
     (case getHistoricalPriceFromBinance e (symbol @ ''USDT'') period w of
        (Inr price, w1) \<Rightarrow>
          if price > 0 then (Inr price, w1)
          else (case getHistoricalPriceFromBybit e (symbol @ ''USDT'') period w1 of
                  (Inr price', w2) \<Rightarrow>
                    if price' > 0 then (Inr price', w2)
                    else (Inl (AllSourcesFailed symbol period), w2)
                | (Inl err', w2) \<Rightarrow>
                    if is_panic err' then (Inl err', w2)
                    else (Inl (AllSourcesFailed symbol period), w2))
      | (Inl err, w1) \<Rightarrow>
          if is_panic err then (Inl err, w1)
          else (case getHistoricalPriceFromBybit e (symbol @ ''USDT'') period w1 of
                  (Inr price', w2) \<Rightarrow>
                    if price' > 0 then (Inr price', w2)
                    else (Inl (AllSourcesFailed symbol period), w2)
                | (Inl err', w2) \<Rightarrow>
                    if is_panic err' then (Inl err', w2)
                    else (Inl (AllSourcesFailed symbol period), w2)))"
  by (simp add: getHistoricalPrice_def historySources_def split: prod.splits sum.splits)

lemma getHistoricalPrice_positive:
  "getHistoricalPrice e symbol period w = (Inr basePrice, w') \<Longrightarrow> basePrice > 0"
  by (auto simp: getHistoricalPrice_unfold split: prod.splits sum.splits if_splits)

lemma getHistoricalPrice_source:
  "getHistoricalPrice e symbol period w = (Inr basePrice, w') \<Longrightarrow>
   fst (getHistoricalPriceFromBinance e (symbol @ ''USDT'') period w) = Inr basePrice \<or>
   fst (getHistoricalPriceFromBybit e (symbol @ ''USDT'') period
          (snd (getHistoricalPriceFromBinance e (symbol @ ''USDT'') period w))) = Inr basePrice"
  by (auto simp: getHistoricalPrice_unfold split: prod.splits sum.splits if_splits)

lemma checkChangeRule_resolved:
  "Mapping.lookup prices (cr_Symbol rule @ ''USDT'') = Some currentPrice \<Longrightarrow>
   getHistoricalPrice e (cr_Symbol rule) (cr_Period rule) w = (Inr basePrice, w') \<Longrightarrow>
   checkChangeRule e prices alertCooldown now rule triggered w =
     (if fle (Finite (cr_ChangePercent rule)) (abs_float (changePercent currentPrice basePrice))
         \<and> \<not> inCooldown (priceHistory w') (alertKey rule) now alertCooldown
      then (Inr (triggered @ [changeAlert rule currentPrice basePrice]),
            recorded (alertKey rule) now w')
      else (Inr triggered, w'))"
  by (simp add: checkChangeRule_def symbolKey_def changeAlert_def recorded_def)

lemma checkChangeRule_unresolved:
  "Mapping.lookup prices (cr_Symbol rule @ ''USDT'') = Some currentPrice \<Longrightarrow>
   getHistoricalPrice e (cr_Symbol rule) (cr_Period rule) w = (Inl err, w') \<Longrightarrow>
   checkChangeRule e prices alertCooldown now rule triggered w =
     (if is_panic err then (Inl err, w') else (Inr triggered, w'))"
  by (simp add: checkChangeRule_def symbolKey_def)

lemma checkChangeRule_absent:
  "Mapping.lookup prices (cr_Symbol rule @ ''USDT'') = None \<Longrightarrow>
   checkChangeRule e prices alertCooldown now rule triggered w = (Inr triggered, w)"
  by (simp add: checkChangeRule_def symbolKey_def)

text \<open>
  Claim C5. A price that \<open>getHistoricalPrice\<close> returns without error is greater than 0
  and is the price that Binance returned or, after it, Bybit. When Binance returns a
  price that is 0 or negative, the result is that of Bybit in the state Binance has
  left: its price when that is positive, and else the error that all sources failed
  (or the panic of Bybit). When the resolver returns an error, \<open>checkChangeAlerts\<close>
  passes over the rule: the alerts stay as they were. So every alert that a rule adds
  carries a base price greater than 0: the division is never by zero.
\<close>

theorem base_price_positive:
  "(getHistoricalPrice e symbol period w = (Inr basePrice, w') \<longrightarrow>
      basePrice > 0 \<and>
      (fst (getHistoricalPriceFromBinance e (symbol @ ''USDT'') period w) = Inr basePrice \<or>
       fst (getHistoricalPriceFromBybit e (symbol @ ''USDT'') period
              (snd (getHistoricalPriceFromBinance e (symbol @ ''USDT'') period w))) =
         Inr basePrice)) \<and>
   (getHistoricalPriceFromBinance e (symbol @ ''USDT'') period w = (Inr price, w1) \<and> price \<le> 0 \<longrightarrow>
      getHistoricalPrice e symbol period w =
        (case getHistoricalPriceFromBybit e (symbol @ ''USDT'') period w1 of
           (Inr price', w2) \<Rightarrow>
             if price' > 0 then (Inr price', w2)
             else (Inl (AllSourcesFailed symbol period), w2)
         | (Inl err', w2) \<Rightarrow>
             if is_panic err' then (Inl err', w2)
             else (Inl (AllSourcesFailed symbol period), w2))) \<and>
   (Mapping.lookup prices (cr_Symbol rule @ ''USDT'') = Some currentPrice \<and>
    getHistoricalPrice e (cr_Symbol rule) (cr_Period rule) w = (Inl err, w') \<and>
    \<not> is_panic err \<longrightarrow>
      checkChangeRule e prices alertCooldown now rule triggered w = (Inr triggered, w')) \<and>
   (checkChangeRule e prices alertCooldown now rule triggered w = (Inr (triggered @ [alert]), w') \<longrightarrow>
      (\<exists>label up size base current.
         Message alert = Changed label up size base current \<and> base > 0))"
proof (intro conjI impI)
  assume "getHistoricalPrice e symbol period w = (Inr basePrice, w')"
  then show "basePrice > 0"
    and "fst (getHistoricalPriceFromBinance e (symbol @ ''USDT'') period w) = Inr basePrice \<or>
       fst (getHistoricalPriceFromBybit e (symbol @ ''USDT'') period
              (snd (getHistoricalPriceFromBinance e (symbol @ ''USDT'') period w))) =
         Inr basePrice"
    by (rule getHistoricalPrice_positive, rule getHistoricalPrice_source)
next
  assume "getHistoricalPriceFromBinance e (symbol @ ''USDT'') period w = (Inr price, w1) \<and> price \<le> 0"
  then show "getHistoricalPrice e symbol period w =
        (case getHistoricalPriceFromBybit e (symbol @ ''USDT'') period w1 of
           (Inr price', w2) \<Rightarrow>
             if price' > 0 then (Inr price', w2)
             else (Inl (AllSourcesFailed symbol period), w2)
         | (Inl err', w2) \<Rightarrow>
             if is_panic err' then (Inl err', w2)
             else (Inl (AllSourcesFailed symbol period), w2))"
    by (simp add: getHistoricalPrice_unfold)
next
  assume "Mapping.lookup prices (cr_Symbol rule @ ''USDT'') = Some currentPrice \<and>
    getHistoricalPrice e (cr_Symbol rule) (cr_Period rule) w = (Inl err, w') \<and>
    \<not> is_panic err"
  then show "checkChangeRule e prices alertCooldown now rule triggered w = (Inr triggered, w')"
    by (simp add: checkChangeRule_unresolved)
next
  assume fired: "checkChangeRule e prices alertCooldown now rule triggered w =
    (Inr (triggered @ [alert]), w')"
  show "\<exists>label up size base current.
         Message alert = Changed label up size base current \<and> base > 0"
  proof (cases "Mapping.lookup prices (cr_Symbol rule @ ''USDT'')")
    case None
    with fired show ?thesis by (simp add: checkChangeRule_absent)
  next
    case (Some currentPrice)
    obtain r w1 where g: "getHistoricalPrice e (cr_Symbol rule) (cr_Period rule) w = (r, w1)"
      by (cases "getHistoricalPrice e (cr_Symbol rule) (cr_Period rule) w")
    show ?thesis
    proof (cases r)
      case (Inl err)
      with fired Some g show ?thesis
        by (simp add: checkChangeRule_unresolved split: if_splits)
    next
      case (Inr basePrice)
      with g have "basePrice > 0" by (simp add: getHistoricalPrice_positive)
      with fired Some g Inr show ?thesis
        by (auto simp: checkChangeRule_resolved changeAlert_def split: if_splits)
    qed
  qed
qed

lemmas daily_eval =
  getHistoricalPrice_unfold getHistoricalPriceFromBinance_def getHistoricalPriceFromBybit_def
  getDailyOpenPriceFromBinance_def getDailyOpenPriceFromBybit_def http_def index_def
  dailyKline_def offline_def start_def

lemma zeroThenBybit_binance:
  "getHistoricalPriceFromBinance zeroThenBybit (''ETH'' @ ''USDT'') ''daily'' start =
     (Inr 0, start\<lparr>requests := [GetBinanceKline ''ETHUSDT'' ''1d'' 1]\<rparr>)"
  by (simp add: daily_eval zeroThenBybit_def)

lemma zeroThenBybit_resolved:
  "getHistoricalPrice zeroThenBybit ''ETH'' ''daily'' start =
     (Inr 200, start\<lparr>requests := [GetBinanceKline ''ETHUSDT'' ''1d'' 1,
                                     GetBybitKline ''ETHUSDT'' ''D'' 1]\<rparr>)"
  by (simp add: daily_eval zeroThenBybit_def)

lemma zeroOnly_unresolved:
  "getHistoricalPrice zeroOnly ''ETH'' ''daily'' start =
     (Inl (AllSourcesFailed ''ETH'' ''daily''),
      start\<lparr>requests := [GetBinanceKline ''ETHUSDT'' ''1d'' 1,
                           GetBybitKline ''ETHUSDT'' ''D'' 1]\<rparr>)"
  by (simp add: daily_eval zeroOnly_def)

lemma eth210_lookup: "Mapping.lookup eth210 (cr_Symbol ethDaily @ ''USDT'') = Some 210"
  by (simp add: eth210_def ethDaily_def)

lemma zeroThenBybit_fires:
  "checkChangeRule zeroThenBybit eth210 (5 * minute) 0 ethDaily [] start =
     (Inr ([] @ [changeAlert ethDaily 210 200]),
      recorded (alertKey ethDaily) 0
        (start\<lparr>requests := [GetBinanceKline ''ETHUSDT'' ''1d'' 1,
                              GetBybitKline ''ETHUSDT'' ''D'' 1]\<rparr>))"
proof -
  have g: "getHistoricalPrice zeroThenBybit (cr_Symbol ethDaily) (cr_Period ethDaily) start =
     (Inr 200, start\<lparr>requests := [GetBinanceKline ''ETHUSDT'' ''1d'' 1,
                                     GetBybitKline ''ETHUSDT'' ''D'' 1]\<rparr>)"
    using zeroThenBybit_resolved by (simp add: ethDaily_def)
  show ?thesis
    unfolding checkChangeRule_resolved [OF eth210_lookup g]
    by (simp add: ethDaily_def inCooldown_def start_def)
qed

text \<open>Binance reports the open price 0 and Bybit 200: the base price is 200, from
  Bybit, and the alert carries it. Binance reports 0 and Bybit nothing: the resolver
  returns the error and the rule adds no alert.\<close>

theorem base_price_positive_witness:
  "fst (getHistoricalPriceFromBinance zeroThenBybit ''ETHUSDT'' ''daily'' start) = Inr 0 \<and>
   fst (getHistoricalPrice zeroThenBybit ''ETH'' ''daily'' start) = Inr 200 \<and>
   fst (getHistoricalPriceFromBybit zeroThenBybit ''ETHUSDT'' ''daily''
          (snd (getHistoricalPriceFromBinance zeroThenBybit ''ETHUSDT'' ''daily'' start))) =
     Inr 200 \<and>
   fst (getHistoricalPrice zeroOnly ''ETH'' ''daily'' start) =
     Inl (AllSourcesFailed ''ETH'' ''daily'') \<and>
   fst (checkChangeRule zeroOnly eth210 (5 * minute) 0 ethDaily [] start) = Inr [] \<and>
   (\<exists>label up size base current.
      Message (changeAlert ethDaily 210 200) = Changed label up size base current \<and> base > 0)"
proof -
  note claim = base_price_positive
  have 1: "(0::real) < 200 \<and>
      (fst (getHistoricalPriceFromBinance zeroThenBybit (''ETH'' @ ''USDT'') ''daily'' start) = Inr 200 \<or>
       fst (getHistoricalPriceFromBybit zeroThenBybit (''ETH'' @ ''USDT'') ''daily''
              (snd (getHistoricalPriceFromBinance zeroThenBybit (''ETH'' @ ''USDT'') ''daily'' start))) =
         Inr 200)"
    by (rule claim [THEN conjunct1, THEN mp, OF zeroThenBybit_resolved])
  have 2: "getHistoricalPrice zeroThenBybit ''ETH'' ''daily'' start =
        (case getHistoricalPriceFromBybit zeroThenBybit (''ETH'' @ ''USDT'') ''daily''
                (start\<lparr>requests := [GetBinanceKline ''ETHUSDT'' ''1d'' 1]\<rparr>) of
           (Inr price', w2) \<Rightarrow>
             if price' > 0 then (Inr price', w2)
             else (Inl (AllSourcesFailed ''ETH'' ''daily''), w2)
         | (Inl err', w2) \<Rightarrow>
             if is_panic err' then (Inl err', w2)
             else (Inl (AllSourcesFailed ''ETH'' ''daily''), w2))"
    using zeroThenBybit_binance
    by (intro claim [where price = 0, THEN conjunct2, THEN conjunct1, THEN mp]) simp
  have u: "getHistoricalPrice zeroOnly (cr_Symbol ethDaily) (cr_Period ethDaily) start =
     (Inl (AllSourcesFailed ''ETH'' ''daily''),
      start\<lparr>requests := [GetBinanceKline ''ETHUSDT'' ''1d'' 1,
                           GetBybitKline ''ETHUSDT'' ''D'' 1]\<rparr>)"
    using zeroOnly_unresolved by (simp add: ethDaily_def)
  have 3: "checkChangeRule zeroOnly eth210 (5 * minute) 0 ethDaily [] start =
      (Inr [], start\<lparr>requests := [GetBinanceKline ''ETHUSDT'' ''1d'' 1,
                                   GetBybitKline ''ETHUSDT'' ''D'' 1]\<rparr>)"
    using eth210_lookup u
    by (intro claim [where currentPrice = 210 and err = "AllSourcesFailed ''ETH'' ''daily''",
          THEN conjunct2, THEN conjunct2, THEN conjunct1, THEN mp]) simp
  have 4: "\<exists>label up size base current.
      Message (changeAlert ethDaily 210 200) = Changed label up size base current \<and> base > 0"
    by (rule claim [THEN conjunct2, THEN conjunct2, THEN conjunct2, THEN mp,
          OF zeroThenBybit_fires])
  from 1 have "fst (getHistoricalPriceFromBybit zeroThenBybit ''ETHUSDT'' ''daily''
          (snd (getHistoricalPriceFromBinance zeroThenBybit ''ETHUSDT'' ''daily'' start))) =
     Inr 200"
    using zeroThenBybit_binance by simp
  moreover have "fst (getHistoricalPriceFromBinance zeroThenBybit ''ETHUSDT'' ''daily'' start) = Inr 0"
    using zeroThenBybit_binance by simp
  moreover have "fst (getHistoricalPrice zeroThenBybit ''ETH'' ''daily'' start) = Inr 200"
    using zeroThenBybit_resolved by simp
  moreover have "fst (getHistoricalPrice zeroOnly ''ETH'' ''daily'' start) =
     Inl (AllSourcesFailed ''ETH'' ''daily'')"
    using zeroOnly_unresolved by simp
  moreover have "fst (checkChangeRule zeroOnly eth210 (5 * minute) 0 ethDaily [] start) = Inr []"
    using 3 by simp
  ultimately show ?thesis using 4 by simp
qed

section \<open>The resolver sends no notification\<close>

lemma getsOnly_http: "\<not> isPost req \<Longrightarrow> getsOnly w (w\<lparr>requests := requests w @ [req]\<rparr>)"
  by (simp add: getsOnly_def)

lemma getDailyOpenPriceFromBinance_getsOnly:
  "getsOnly w (snd (getDailyOpenPriceFromBinance e symbol w))"
  by (simp add: getDailyOpenPriceFromBinance_def http_def getsOnly_http
      split: sum.splits json.splits option.splits)

lemma getDailyOpenPriceFromBybit_getsOnly:
  "getsOnly w (snd (getDailyOpenPriceFromBybit e symbol w))"
  by (simp add: getDailyOpenPriceFromBybit_def http_def getsOnly_http
      split: sum.splits option.splits)

lemma get15mAgoPriceFromBinance_getsOnly:
  "getsOnly w (snd (get15mAgoPriceFromBinance e symbol w))"
  by (simp add: get15mAgoPriceFromBinance_def http_def getsOnly_http
      split: sum.splits json.splits option.splits)

lemma get15mAgoPriceFromBybit_getsOnly:
  "getsOnly w (snd (get15mAgoPriceFromBybit e symbol w))"
  by (simp add: get15mAgoPriceFromBybit_def http_def getsOnly_http
      split: sum.splits option.splits)

lemma getHistoricalPriceFromBinance_getsOnly:
  "getsOnly w (snd (getHistoricalPriceFromBinance e symbol period w))"
  by (simp add: getHistoricalPriceFromBinance_def getDailyOpenPriceFromBinance_getsOnly
      get15mAgoPriceFromBinance_getsOnly)

lemma getHistoricalPriceFromBybit_getsOnly:
  "getsOnly w (snd (getHistoricalPriceFromBybit e symbol period w))"
  by (simp add: getHistoricalPriceFromBybit_def getDailyOpenPriceFromBybit_getsOnly
      get15mAgoPriceFromBybit_getsOnly)

lemma getHistoricalPrice_getsOnly:
  "getsOnly w (snd (getHistoricalPrice e symbol period w))"
proof -
  let ?b = "getHistoricalPriceFromBinance e (symbol @ ''USDT'') period w"
  let ?y = "getHistoricalPriceFromBybit e (symbol @ ''USDT'') period (snd ?b)"
  have b: "getsOnly w (snd ?b)" by (rule getHistoricalPriceFromBinance_getsOnly)
  have "getsOnly (snd ?b) (snd ?y)" by (rule getHistoricalPriceFromBybit_getsOnly)
  with b have y: "getsOnly w (snd ?y)" by (rule getsOnly_trans)
  have "snd (getHistoricalPrice e symbol period w) = snd ?b \<or>
        snd (getHistoricalPrice e symbol period w) = snd ?y"
    by (simp add: getHistoricalPrice_unfold split: prod.splits sum.splits)
  with b y show ?thesis by auto
qed

lemma getHistoricalPrice_priceHistory:
  "getHistoricalPrice e symbol period w = (r, w') \<Longrightarrow> priceHistory w' = priceHistory w"
  using getHistoricalPrice_getsOnly [of w e symbol period] by (simp add: getsOnly_def)

section \<open>One change rule\<close>

text \<open>
  \<open>checkChangeAlerts\<close> takes its rules one after the other through \<open>checkChangeRule\<close>,
  each with the alerts and in the state that the rules before it have left, and goes on
  with the rest of the rules from what the rule leaves. The lemmas of this section split
  a call of \<open>checkChangeAlerts\<close> at any rule of its list: the rules before it, the rule,
  and the rest of the rules (\<open>continued\<close>).
\<close>

lemma checkChangeLoop_rule:
  "checkChangeLoop e prices c n (before @ rule # after) triggered w =
     (case checkChangeLoop e prices c n before triggered w of
        (Inl panic, w1) \<Rightarrow> (Inl panic, w1)
      | (Inr triggered1, w1) \<Rightarrow>
          (case checkChangeRule e prices c n rule triggered1 w1 of
             (Inl panic, w2) \<Rightarrow> (Inl panic, w2)
           | (Inr triggered2, w2) \<Rightarrow> checkChangeLoop e prices c n after triggered2 w2))"
  by (induction before arbitrary: triggered w) (auto split: prod.splits sum.splits)

lemma checkChangeRule_acc:
  "checkChangeRule e prices c n rule triggered w =
     (case checkChangeRule e prices c n rule [] w of
        (Inl panic, w') \<Rightarrow> (Inl panic, w')
      | (Inr new, w') \<Rightarrow> (Inr (triggered @ new), w'))"
  by (simp add: checkChangeRule_def split: option.splits prod.splits sum.splits)

lemma checkChangeRule_effect:
  assumes "checkChangeRule e prices c n rule [] w = (r, w')"
  shows "filter isPost (requests w') = filter isPost (requests w) \<and>
     (priceHistory w' = priceHistory w \<and> (r = Inr [] \<or> (\<exists>panic. r = Inl panic)) \<or>
      (\<exists>alert. r = Inr [alert]) \<and>
      priceHistory w' = (priceHistory w)
        \<lparr>lastAlertTime :=
           Mapping.update (alertKey rule) (time_Format n) (lastAlertTime (priceHistory w))\<rparr>)"
proof (cases "Mapping.lookup prices (cr_Symbol rule @ ''USDT'')")
  case None
  with assms show ?thesis by (auto simp: checkChangeRule_absent)
next
  case (Some currentPrice)
  obtain g w1 where g: "getHistoricalPrice e (cr_Symbol rule) (cr_Period rule) w = (g, w1)"
    by (cases "getHistoricalPrice e (cr_Symbol rule) (cr_Period rule) w")
  have "getsOnly w w1"
    using getHistoricalPrice_getsOnly [of w e "cr_Symbol rule" "cr_Period rule"] g by simp
  then have f: "priceHistory w1 = priceHistory w"
    "filter isPost (requests w1) = filter isPost (requests w)"
    by (simp_all add: getsOnly_def)
  show ?thesis
  proof (cases g)
    case (Inl err)
    with assms Some g f show ?thesis
      by (auto simp: checkChangeRule_unresolved split: if_splits)
  next
    case (Inr basePrice)
    with assms Some g f show ?thesis
      by (auto simp: checkChangeRule_resolved recorded_def split: if_splits)
  qed
qed

lemma checkChangeLoop_effect:
  "filter isPost (requests (snd (checkChangeLoop e prices c n rules triggered w))) =
     filter isPost (requests w) \<and>
   priceAlertTime (priceHistory (snd (checkChangeLoop e prices c n rules triggered w))) =
     priceAlertTime (priceHistory w) \<and>
   Mapping.lookup
     (lastAlertTime (priceHistory (snd (checkChangeLoop e prices c n rules triggered w)))) k =
     (if k \<in> set (firedKeys e prices c n rules w) then Some (time_Format n)
      else Mapping.lookup (lastAlertTime (priceHistory w)) k) \<and>
   (case fst (checkChangeLoop e prices c n rules triggered w) of
      Inl panic \<Rightarrow> True
    | Inr alerts \<Rightarrow> length alerts = length triggered + length (firedKeys e prices c n rules w))"
proof (induction rules arbitrary: triggered w)
  case Nil
  show ?case by simp
next
  case (Cons rule rules)
  obtain r w1 where b: "checkChangeRule e prices c n rule [] w = (r, w1)"
    by (cases "checkChangeRule e prices c n rule [] w")
  note eff = checkChangeRule_effect [OF b]
  show ?case
  proof (cases r)
    case (Inl panic)
    with b eff show ?thesis by (simp add: checkChangeRule_acc [of _ _ _ _ _ triggered])
  next
    case (Inr new)
    note ih = Cons.IH [of "triggered @ new" w1]
    from Inr eff consider
        (quiet) "new = []" "priceHistory w1 = priceHistory w"
      | (fired) alert where "new = [alert]"
          "priceHistory w1 = (priceHistory w)
             \<lparr>lastAlertTime :=
                Mapping.update (alertKey rule) (time_Format n) (lastAlertTime (priceHistory w))\<rparr>"
      by auto
    then show ?thesis
    proof cases
      case quiet
      from quiet b Inr eff ih show ?thesis
        by (simp add: checkChangeRule_acc [of _ _ _ _ _ triggered] split: sum.splits)
    next
      case fired
      from fired b Inr eff ih show ?thesis
        by (simp add: checkChangeRule_acc [of _ _ _ _ _ triggered] Mapping.lookup_update'
            split: sum.splits)
    qed
  qed
qed

lemma open200_daily:
  "getHistoricalPrice open200 symbol ''daily'' w =
     (Inr 200, w\<lparr>requests := requests w @ [GetBinanceKline (symbol @ ''USDT'') ''1d'' 1]\<rparr>)"
  by (simp add: getHistoricalPrice_unfold getHistoricalPriceFromBinance_def
      getDailyOpenPriceFromBinance_def http_def index_def dailyKline_def offline_def
      open200_def)

lemma checkChangeLoop_acc:
  "checkChangeLoop e prices c n rules triggered w =
     (case checkChangeLoop e prices c n rules [] w of
        (Inl panic, w') \<Rightarrow> (Inl panic, w')
      | (Inr added, w') \<Rightarrow> (Inr (triggered @ added), w'))"
proof (induction rules arbitrary: triggered w)
  case Nil
  show ?case by simp
next
  case (Cons rule rules)
  obtain r w1 where b: "checkChangeRule e prices c n rule [] w = (r, w1)"
    by (cases "checkChangeRule e prices c n rule [] w")
  show ?case
  proof (cases r)
    case (Inl panic)
    with b show ?thesis by (simp add: checkChangeRule_acc [of _ _ _ _ _ triggered])
  next
    case (Inr new)
    have 1: "checkChangeLoop e prices c n (rule # rules) triggered w =
        checkChangeLoop e prices c n rules (triggered @ new) w1"
      using b Inr by (simp add: checkChangeRule_acc [of _ _ _ _ _ triggered])
    have 2: "checkChangeLoop e prices c n (rule # rules) [] w =
        checkChangeLoop e prices c n rules new w1"
      using b Inr by simp
    note a = Cons.IH [of "triggered @ new" w1]
    note a' = Cons.IH [of new w1]
    show ?thesis
      by (simp only: 1 2 a a') (simp split: prod.splits sum.splits)
  qed
qed

lemma continued_loop:
  "continued e config prices c n rest alerts w = checkChangeLoop e prices c n rest alerts w"
  by (simp add: continued_def checkChangeAlerts_def checkChangeLoop_acc [of _ _ _ _ _ alerts]
      split: prod.splits sum.splits)

lemma continued_Nil [simp]: "continued e config prices c n [] alerts w = (Inr alerts, w)"
  by (simp add: continued_loop)

lemma checkChangeAlerts_rule:
  assumes "ChangeAlertRules config = before @ rule # after"
    and "checkChangeAlerts e (config\<lparr>ChangeAlertRules := before\<rparr>) prices c n w = (Inr alerts, w1)"
  shows "checkChangeAlerts e config prices c n w =
     (case checkChangeRule e prices c n rule alerts w1 of
        (Inl panic, w2) \<Rightarrow> (Inl panic, w2)
      | (Inr alerts', w2) \<Rightarrow> continued e config prices c n after alerts' w2)"
proof -
  from assms(2) have "checkChangeLoop e prices c n before [] w = (Inr alerts, w1)"
    by (simp add: checkChangeAlerts_def)
  then show ?thesis
    by (simp add: checkChangeAlerts_def assms(1) checkChangeLoop_rule continued_loop
        split: prod.splits sum.splits)
qed

lemma checkChangeRule_fired_not_cooling:
  assumes "checkChangeRule e prices c n rule [] w = (Inr (alert # alerts), w')"
  shows "\<not> inCooldown (priceHistory w) (alertKey rule) n c"
proof (cases "Mapping.lookup prices (cr_Symbol rule @ ''USDT'')")
  case None
  with assms show ?thesis by (simp add: checkChangeRule_absent)
next
  case (Some currentPrice)
  obtain g w1 where g: "getHistoricalPrice e (cr_Symbol rule) (cr_Period rule) w = (g, w1)"
    by (cases "getHistoricalPrice e (cr_Symbol rule) (cr_Period rule) w")
  have f: "priceHistory w1 = priceHistory w"
    using g by (rule getHistoricalPrice_priceHistory)
  show ?thesis
  proof (cases g)
    case (Inl err)
    with assms Some g show ?thesis
      by (simp add: checkChangeRule_unresolved split: if_splits)
  next
    case (Inr basePrice)
    with assms Some g f show ?thesis
      by (simp add: checkChangeRule_resolved split: if_splits)
  qed
qed

lemma cooling_key_not_fired:
  "inCooldown (priceHistory w) k n c \<Longrightarrow> k \<notin> set (firedKeys e prices c n rules w)"
proof (induction rules arbitrary: w)
  case Nil
  show ?case by simp
next
  case (Cons rule rules)
  obtain r w1 where b: "checkChangeRule e prices c n rule [] w = (r, w1)"
    by (cases "checkChangeRule e prices c n rule [] w")
  note eff = checkChangeRule_effect [OF b]
  show ?case
  proof (cases r)
    case (Inl panic)
    with b show ?thesis by simp
  next
    case (Inr new)
    show ?thesis
    proof (cases new)
      case Nil
      with Inr eff have "priceHistory w1 = priceHistory w" by simp
      with Cons.prems have "inCooldown (priceHistory w1) k n c" by simp
      then have "k \<notin> set (firedKeys e prices c n rules w1)" by (rule Cons.IH)
      with b Inr Nil show ?thesis by simp
    next
      case (Cons alert alerts)
      with b Inr have "\<not> inCooldown (priceHistory w) (alertKey rule) n c"
        using checkChangeRule_fired_not_cooling by simp
      with Cons.prems have ne: "alertKey rule \<noteq> k" by auto
      from Inr Cons eff have "priceHistory w1 = (priceHistory w)
          \<lparr>lastAlertTime :=
             Mapping.update (alertKey rule) (time_Format n) (lastAlertTime (priceHistory w))\<rparr>"
        by simp
      with ne Cons.prems have "inCooldown (priceHistory w1) k n c"
        by (simp add: inCooldown_def Mapping.lookup_update')
      then have "k \<notin> set (firedKeys e prices c n rules w1)" by (rule Cons.IH)
      with b Inr Cons ne show ?thesis by simp
    qed
  qed
qed

lemma continued_entry:
  "Mapping.lookup
     (lastAlertTime (priceHistory (snd (continued e config prices c n rest alerts w)))) k =
     (if k \<in> set (firedKeys e prices c n rest w) then Some (time_Format n)
      else Mapping.lookup (lastAlertTime (priceHistory w)) k)"
  using checkChangeLoop_effect [of e prices c n rest alerts w k]
  by (simp add: continued_loop)

lemma abs_float_fneg: "abs_float (fneg v) = abs_float v"
  by (cases v) (simp_all add: abs_float_def)

lemma no_rules_before [simp]:
  "checkChangeAlerts e (config\<lparr>ChangeAlertRules := []\<rparr>) prices c n w = (Inr [], w)"
  by (simp add: checkChangeAlerts_def)

lemma open200_resolved:
  "getHistoricalPrice open200 (cr_Symbol ethDaily) (cr_Period ethDaily) w =
     (Inr 200, w\<lparr>requests := requests w @ [GetBinanceKline ''ETHUSDT'' ''1d'' 1]\<rparr>)"
  by (simp add: getHistoricalPrice_unfold getHistoricalPriceFromBinance_def
      getDailyOpenPriceFromBinance_def http_def index_def dailyKline_def offline_def
      open200_def ethDaily_def)

lemma eth209_lookup: "Mapping.lookup eth209 (cr_Symbol ethDaily @ ''USDT'') = Some 209"
  by (simp add: eth209_def ethDaily_def)

lemma eth190_lookup: "Mapping.lookup eth190 (cr_Symbol ethDaily @ ''USDT'') = Some 190"
  by (simp add: eth190_def ethDaily_def)

lemma eth129_lookup: "Mapping.lookup eth129 (cr_Symbol eth29 @ ''USDT'') = Some 129"
  by (simp add: eth129_def eth29_def)

lemma open100_resolved:
  "getHistoricalPrice open100 (cr_Symbol eth29) (cr_Period eth29) w =
     (Inr 100, w\<lparr>requests := requests w @ [GetBinanceKline ''ETHUSDT'' ''1d'' 1]\<rparr>)"
  by (simp add: getHistoricalPrice_unfold getHistoricalPriceFromBinance_def
      getDailyOpenPriceFromBinance_def http_def index_def dailyKline_def offline_def
      open100_def eth29_def)

lemma changePercent_190_200 [simp]: "changePercent 190 200 = Finite (- 5)"
  by (simp add: float_eval)

lemma ethDaily_key: "alertKey ethDaily = ''ETHUSDT_daily''"
  by (simp add: alertKey_def symbolKey_def ethDaily_def)

lemma start_not_cooling [simp]: "\<not> inCooldown (priceHistory start) k n c"
  by (simp add: inCooldown_def start_def)

lemma threeRules_split:
  "ChangeAlertRules threeRules =
     [ethDaily] @ \<lparr>cr_Symbol = ''BTC'', cr_ChangePercent = 50, cr_Period = ''daily''\<rparr> #
       [\<lparr>cr_Symbol = ''SOL'', cr_ChangePercent = 1, cr_Period = ''daily''\<rparr>]"
  by (simp add: threeRules_def)

lemma threeRules_first:
  "checkChangeAlerts open200 (threeRules\<lparr>ChangeAlertRules := [ethDaily]\<rparr>) ethBtc (5 * minute) t0
     start =
     (Inr [changeAlert ethDaily 210 200],
      recorded ''ETHUSDT_daily'' t0 (start\<lparr>requests := [GetBinanceKline ''ETHUSDT'' ''1d'' 1]\<rparr>))"
  by (simp add: checkChangeAlerts_def ethDaily_def ethBtc_def start_def checkChangeRule_def
      symbolKey_def alertKey_def open200_daily inCooldown_def changeAlert_def recorded_def)

lemma ethBtc_btc:
  "Mapping.lookup ethBtc
     (cr_Symbol \<lparr>cr_Symbol = ''BTC'', cr_ChangePercent = 50, cr_Period = ''daily''\<rparr> @ ''USDT'') =
     Some 201"
  by (simp add: ethBtc_def)

lemma sol_absent:
  "continued open200 threeRules ethBtc c n
     [\<lparr>cr_Symbol = ''SOL'', cr_ChangePercent = 1, cr_Period = ''daily''\<rparr>] alerts w =
     (Inr alerts, w)"
  by (simp add: continued_def checkChangeAlerts_def checkChangeRule_def symbolKey_def ethBtc_def)

lemma btc_resolved:
  "getHistoricalPrice open200
     (cr_Symbol \<lparr>cr_Symbol = ''BTC'', cr_ChangePercent = 50, cr_Period = ''daily''\<rparr>)
     (cr_Period \<lparr>cr_Symbol = ''BTC'', cr_ChangePercent = 50, cr_Period = ''daily''\<rparr>)
     (recorded ''ETHUSDT_daily'' t0 (start\<lparr>requests := [GetBinanceKline ''ETHUSDT'' ''1d'' 1]\<rparr>)) =
     (Inr 200,
      (recorded ''ETHUSDT_daily'' t0 (start\<lparr>requests := [GetBinanceKline ''ETHUSDT'' ''1d'' 1]\<rparr>))
        \<lparr>requests :=
           requests (recorded ''ETHUSDT_daily'' t0
             (start\<lparr>requests := [GetBinanceKline ''ETHUSDT'' ''1d'' 1]\<rparr>)) @
           [GetBinanceKline ''BTCUSDT'' ''1d'' 1]\<rparr>)"
  by (simp add: open200_daily)

text \<open>
  Claim C3. Let \<open>rule\<close> be any rule of the change rules of the configuration, the rules
  before it having left the alerts \<open>alerts\<close> and the state \<open>w1\<close>, with its symbol (USDT
  appended) in the snapshot and its base price resolved without error. The change is
  \<open>(currentPrice - basePrice) / basePrice * 100\<close>, each operation rounded as \<open>float64\<close>
  rounds. When the absolute value of the change is not at least the threshold of the
  rule, \<open>checkChangeAlerts\<close> goes on with the rest of the rules from the same alerts: the
  rule adds nothing. When it is at least the threshold, equality included, the call goes
  to the test of the cooldown and, out of the cooldown, goes on with the alert of the
  rule added and the time recorded. On the rules up to and including the rule,
  \<open>checkChangeAlerts\<close> returns the alerts with the alert of the rule added exactly when
  the absolute value of the change is at least the threshold and the key is out of its
  cooldown. The sign of the change is in the message only, as the direction: the test
  of the threshold gives the same for the change and for its negation. When the change
  is a finite number \<open>x\<close>, the test is \<open>threshold \<le> \<bar>x\<bar>\<close> and the direction is \<open>0 < x\<close>.
\<close>

theorem change_rule_triggers_on_magnitude:
  assumes "ChangeAlertRules config = before @ rule # after"
    and "checkChangeAlerts e (config\<lparr>ChangeAlertRules := before\<rparr>) prices alertCooldown now w =
           (Inr alerts, w1)"
    and "Mapping.lookup prices (cr_Symbol rule @ ''USDT'') = Some currentPrice"
    and "getHistoricalPrice e (cr_Symbol rule) (cr_Period rule) w1 = (Inr basePrice, w2)"
  shows "changePercent currentPrice basePrice =
           fmul (fdiv (fsub currentPrice basePrice) basePrice) 100
    \<and> (\<not> fle (Finite (cr_ChangePercent rule)) (abs_float (changePercent currentPrice basePrice)) \<longrightarrow>
           checkChangeAlerts e config prices alertCooldown now w =
             continued e config prices alertCooldown now after alerts w2)
    \<and> (fle (Finite (cr_ChangePercent rule)) (abs_float (changePercent currentPrice basePrice)) \<longrightarrow>
           checkChangeAlerts e config prices alertCooldown now w =
             (if inCooldown (priceHistory w1) (alertKey rule) now alertCooldown
              then continued e config prices alertCooldown now after alerts w2
              else continued e config prices alertCooldown now after
                     (alerts @ [changeAlert rule currentPrice basePrice])
                     (recorded (alertKey rule) now w2)))
    \<and> (checkChangeAlerts e (config\<lparr>ChangeAlertRules := before @ [rule]\<rparr>) prices alertCooldown
           now w =
           (Inr (alerts @ [changeAlert rule currentPrice basePrice]),
            recorded (alertKey rule) now w2)
         \<longleftrightarrow> fle (Finite (cr_ChangePercent rule))
               (abs_float (changePercent currentPrice basePrice)) \<and>
             \<not> inCooldown (priceHistory w1) (alertKey rule) now alertCooldown)
    \<and> Message (changeAlert rule currentPrice basePrice) =
           Changed (periodLabel (cr_Period rule))
             (fless (Finite 0) (changePercent currentPrice basePrice))
             (abs_float (changePercent currentPrice basePrice)) basePrice currentPrice
    \<and> (fle (Finite (cr_ChangePercent rule))
           (abs_float (fneg (changePercent currentPrice basePrice))) \<longleftrightarrow>
        fle (Finite (cr_ChangePercent rule)) (abs_float (changePercent currentPrice basePrice)))
    \<and> (\<forall>x. changePercent currentPrice basePrice = Finite x \<longrightarrow>
           abs_float (changePercent currentPrice basePrice) = Finite \<bar>x\<bar> \<and>
           (fle (Finite (cr_ChangePercent rule))
              (abs_float (changePercent currentPrice basePrice)) \<longleftrightarrow>
            cr_ChangePercent rule \<le> \<bar>x\<bar>) \<and>
           (fless (Finite 0) (changePercent currentPrice basePrice) \<longleftrightarrow> 0 < x))"
proof -
  note body = checkChangeRule_resolved [OF assms(3,4), of alertCooldown now alerts]
  note call = checkChangeAlerts_rule [OF assms(1,2)]
  have h: "priceHistory w2 = priceHistory w1"
    using assms(4) by (rule getHistoricalPrice_priceHistory)
  have val: "changePercent currentPrice basePrice =
      fmul (fdiv (fsub currentPrice basePrice) basePrice) 100"
    by (simp add: changePercent_def)
  have below: "\<not> fle (Finite (cr_ChangePercent rule))
        (abs_float (changePercent currentPrice basePrice)) \<longrightarrow>
      checkChangeAlerts e config prices alertCooldown now w =
        continued e config prices alertCooldown now after alerts w2"
    by (simp add: call body)
  have above: "fle (Finite (cr_ChangePercent rule))
        (abs_float (changePercent currentPrice basePrice)) \<longrightarrow>
      checkChangeAlerts e config prices alertCooldown now w =
        (if inCooldown (priceHistory w1) (alertKey rule) now alertCooldown
         then continued e config prices alertCooldown now after alerts w2
         else continued e config prices alertCooldown now after
                (alerts @ [changeAlert rule currentPrice basePrice])
                (recorded (alertKey rule) now w2))"
    by (simp add: call body h)
  have "checkChangeAlerts e (config\<lparr>ChangeAlertRules := before @ [rule]\<rparr>) prices alertCooldown
        now w =
      (case checkChangeRule e prices alertCooldown now rule alerts w1 of
         (Inl panic, w2) \<Rightarrow> (Inl panic, w2)
       | (Inr alerts', w2) \<Rightarrow> (Inr alerts', w2))"
    using checkChangeAlerts_rule [of "config\<lparr>ChangeAlertRules := before @ [rule]\<rparr>" before rule
        "[]" e prices alertCooldown now w alerts w1] assms(2)
    by (simp add: continued_loop split: prod.splits sum.splits)
  then have exactly: "checkChangeAlerts e (config\<lparr>ChangeAlertRules := before @ [rule]\<rparr>) prices
        alertCooldown now w =
      (Inr (alerts @ [changeAlert rule currentPrice basePrice]),
       recorded (alertKey rule) now w2)
    \<longleftrightarrow> fle (Finite (cr_ChangePercent rule))
          (abs_float (changePercent currentPrice basePrice)) \<and>
        \<not> inCooldown (priceHistory w1) (alertKey rule) now alertCooldown"
    by (simp add: body h)
  have msg: "Message (changeAlert rule currentPrice basePrice) =
      Changed (periodLabel (cr_Period rule))
        (fless (Finite 0) (changePercent currentPrice basePrice))
        (abs_float (changePercent currentPrice basePrice)) basePrice currentPrice"
    by (simp add: changeAlert_def)
  have sign: "fle (Finite (cr_ChangePercent rule))
        (abs_float (fneg (changePercent currentPrice basePrice))) \<longleftrightarrow>
      fle (Finite (cr_ChangePercent rule)) (abs_float (changePercent currentPrice basePrice))"
    by (simp add: abs_float_fneg)
  have fin: "\<forall>x. changePercent currentPrice basePrice = Finite x \<longrightarrow>
      abs_float (changePercent currentPrice basePrice) = Finite \<bar>x\<bar> \<and>
      (fle (Finite (cr_ChangePercent rule))
         (abs_float (changePercent currentPrice basePrice)) \<longleftrightarrow>
       cr_ChangePercent rule \<le> \<bar>x\<bar>) \<and>
      (fless (Finite 0) (changePercent currentPrice basePrice) \<longleftrightarrow> 0 < x)"
    by simp
  from val below above exactly msg sign fin show ?thesis by (intro conjI)
qed

text \<open>
  With the open price 200 of the day and a threshold of 5 per cent: ETH at 210 (a change
  of 5) adds the alert of a rise, ETH at 190 (a change of -5) the alert of a fall, ETH
  at 209 (a change of 4.5) adds nothing. With the open price 100 and a threshold of 29
  per cent, ETH at 129 adds nothing: the change computed in \<open>float64\<close> is
  8162774324609023 / 2 ^ 48, just below 29. With three rules, the second one (BTC at
  201, a change of 0.5 against a threshold of 50) adds nothing between the alert of the
  first and the third, whose symbol is not in the snapshot.
\<close>

theorem change_rule_triggers_on_magnitude_witness:
  "checkChangeAlerts open200 ethRules eth210 (5 * minute) t0 start =
     (Inr [\<lparr>Symbol = ''ETH'', AlertType = ''change'', CurrentPrice = 210,
            Message = Changed (periodLabel ''daily'') True (Finite 5) 200 210\<rparr>],
      recorded ''ETHUSDT_daily'' t0 (start\<lparr>requests := [GetBinanceKline ''ETHUSDT'' ''1d'' 1]\<rparr>))
   \<and> checkChangeAlerts open200 ethRules eth190 (5 * minute) t0 start =
     (Inr [\<lparr>Symbol = ''ETH'', AlertType = ''change'', CurrentPrice = 190,
            Message = Changed (periodLabel ''daily'') False (Finite 5) 200 190\<rparr>],
      recorded ''ETHUSDT_daily'' t0 (start\<lparr>requests := [GetBinanceKline ''ETHUSDT'' ''1d'' 1]\<rparr>))
   \<and> checkChangeAlerts open200 ethRules eth209 (5 * minute) t0 start =
     (Inr [], start\<lparr>requests := [GetBinanceKline ''ETHUSDT'' ''1d'' 1]\<rparr>)
   \<and> checkChangeAlerts open100 eth29Rules eth129 (5 * minute) t0 start =
     (Inr [], start\<lparr>requests := [GetBinanceKline ''ETHUSDT'' ''1d'' 1]\<rparr>)
   \<and> changePercent 129 100 = Finite (8162774324609023 / 2 ^ 48)
   \<and> checkChangeAlerts open200 threeRules ethBtc (5 * minute) t0 start =
     (Inr [changeAlert ethDaily 210 200],
      recorded ''ETHUSDT_daily'' t0
        (start\<lparr>requests := [GetBinanceKline ''ETHUSDT'' ''1d'' 1,
                             GetBinanceKline ''BTCUSDT'' ''1d'' 1]\<rparr>))"
proof -
  let ?w = "start\<lparr>requests := [GetBinanceKline ''ETHUSDT'' ''1d'' 1]\<rparr>"
  have rules: "ChangeAlertRules ethRules = [] @ ethDaily # []"
    by (simp add: ethRules_def)
  have rules29: "ChangeAlertRules eth29Rules = [] @ eth29 # []"
    by (simp add: eth29Rules_def)
  have before: "checkChangeAlerts open200 (ethRules\<lparr>ChangeAlertRules := []\<rparr>) prices (5 * minute)
      t0 start = (Inr [], start)" for prices
    by simp
  have before29: "checkChangeAlerts open100 (eth29Rules\<lparr>ChangeAlertRules := []\<rparr>) eth129
      (5 * minute) t0 start = (Inr [], start)"
    by simp
  have r: "getHistoricalPrice open200 (cr_Symbol ethDaily) (cr_Period ethDaily) start =
      (Inr 200, ?w)"
    using open200_resolved [of start] by (simp add: start_def)
  have r29: "getHistoricalPrice open100 (cr_Symbol eth29) (cr_Period eth29) start =
      (Inr 100, ?w)"
    using open100_resolved [of start] by (simp add: start_def)
  have "checkChangeAlerts open200 ethRules eth210 (5 * minute) t0 start =
     (Inr [\<lparr>Symbol = ''ETH'', AlertType = ''change'', CurrentPrice = 210,
            Message = Changed (periodLabel ''daily'') True (Finite 5) 200 210\<rparr>],
      recorded ''ETHUSDT_daily'' t0 ?w)"
    using change_rule_triggers_on_magnitude [OF rules before eth210_lookup r]
    by (simp add: ethDaily_key) (simp add: ethDaily_def changeAlert_def)
  moreover have "checkChangeAlerts open200 ethRules eth190 (5 * minute) t0 start =
     (Inr [\<lparr>Symbol = ''ETH'', AlertType = ''change'', CurrentPrice = 190,
            Message = Changed (periodLabel ''daily'') False (Finite 5) 200 190\<rparr>],
      recorded ''ETHUSDT_daily'' t0 ?w)"
    using change_rule_triggers_on_magnitude [OF rules before eth190_lookup r]
    by (simp add: ethDaily_key) (simp add: ethDaily_def changeAlert_def)
  moreover have "checkChangeAlerts open200 ethRules eth209 (5 * minute) t0 start = (Inr [], ?w)"
    using change_rule_triggers_on_magnitude [OF rules before eth209_lookup r]
    by (simp add: ethDaily_def)
  moreover have "checkChangeAlerts open100 eth29Rules eth129 (5 * minute) t0 start = (Inr [], ?w)"
    using change_rule_triggers_on_magnitude [OF rules29 before29 eth129_lookup r29]
    by (simp add: eth29_def)
  moreover have "changePercent 129 100 = Finite (8162774324609023 / 2 ^ 48)"
    by simp
  moreover have "checkChangeAlerts open200 threeRules ethBtc (5 * minute) t0 start =
     (Inr [changeAlert ethDaily 210 200],
      recorded ''ETHUSDT_daily'' t0
        (start\<lparr>requests := [GetBinanceKline ''ETHUSDT'' ''1d'' 1,
                             GetBinanceKline ''BTCUSDT'' ''1d'' 1]\<rparr>))"
    using change_rule_triggers_on_magnitude [OF threeRules_split threeRules_first ethBtc_btc
        btc_resolved]
    by (simp add: sol_absent) (simp add: recorded_def start_def)
  ultimately show ?thesis by (intro conjI)
qed

section \<open>The cooldown of a change rule\<close>

lemma age_after:
  "0 \<le> d \<Longrightarrow> d + second \<le> maxDuration \<Longrightarrow>
   time_Sub (T + d) (time_Parse (time_Format T)) = d + T mod second"
proof -
  assume d: "0 \<le> d" "d + second \<le> maxDuration"
  have m: "0 \<le> T mod second" "T mod second < second"
    by (simp_all add: second_def)
  have "T + d - T div second * second = d + T mod second"
    by (simp add: algebra_simps minus_mult_div_eq_mod [symmetric])
  moreover have "minDuration \<le> 0" by (simp add: minDuration_def)
  ultimately show ?thesis
    using d m by (simp add: time_Sub_def time_Format_def)
qed

lemma age_one_second: "time_Sub (T + 1 * second) (time_Parse (time_Format T)) < 5 * minute"
proof -
  have "time_Sub (T + 1 * second) (time_Parse (time_Format T)) = 1 * second + T mod second"
    by (rule age_after) (simp_all add: second_def maxDuration_def)
  moreover have "T mod second < second" by (simp add: second_def)
  ultimately show ?thesis by (simp add: minute_def second_def)
qed

lemma age_six_minutes: "\<not> time_Sub (T + 6 * minute) (time_Parse (time_Format T)) < 5 * minute"
proof -
  have "time_Sub (T + 6 * minute) (time_Parse (time_Format T)) = 6 * minute + T mod second"
    by (rule age_after) (simp_all add: second_def minute_def maxDuration_def)
  moreover have "0 \<le> T mod second" by (simp add: second_def)
  ultimately show ?thesis by (simp add: minute_def second_def)
qed

lemma firedOnce_entry:
  "Mapping.lookup (lastAlertTime (priceHistory firedOnce)) (alertKey ethDaily) =
     Some (time_Format t0)"
  by (simp add: ethDaily_key firedOnce_def recorded_def)

lemma hit_210_200:
  "fle (Finite (cr_ChangePercent ethDaily)) (abs_float (changePercent 210 200))"
  by (simp add: ethDaily_def)

text \<open>
  Claim C6. Let \<open>rule\<close> be any rule of the change rules of the configuration, triggered,
  the rules before it having left the alerts \<open>alerts\<close> and the state \<open>w1\<close>. The key of
  the rule is its symbol, USDT, an underscore and its period. When the cooldown map
  holds under the key an entry whose time is younger than the cooldown at \<open>now\<close>,
  \<open>checkChangeAlerts\<close> goes on with the rest of the rules from the same alerts, the rule
  leaves the cooldown map as it was, and the entry is the same when the call has ended.
  When there is no entry, or the entry is at least as old as the cooldown, the call goes
  on with the alert of the rule added and \<open>now\<close> recorded under the key, and the entry
  is \<open>now\<close> when the call has ended. With a cooldown of 5 minutes and the entry of the
  time \<open>T\<close>, the call at \<open>T\<close> plus one second adds nothing for the rule, the call at
  \<open>T\<close> plus six minutes adds the alert.
\<close>

theorem change_alert_cooldown:
  assumes "ChangeAlertRules config = before @ rule # after"
    and "checkChangeAlerts e (config\<lparr>ChangeAlertRules := before\<rparr>) prices alertCooldown now w =
           (Inr alerts, w1)"
    and "Mapping.lookup prices (cr_Symbol rule @ ''USDT'') = Some currentPrice"
    and "getHistoricalPrice e (cr_Symbol rule) (cr_Period rule) w1 = (Inr basePrice, w2)"
    and "fle (Finite (cr_ChangePercent rule)) (abs_float (changePercent currentPrice basePrice))"
  shows "alertKey rule = cr_Symbol rule @ ''USDT'' @ ''_'' @ cr_Period rule
    \<and> (Mapping.lookup (lastAlertTime (priceHistory w1)) (alertKey rule) = Some lastTime \<and>
        time_Sub now (time_Parse lastTime) < alertCooldown \<longrightarrow>
          checkChangeAlerts e config prices alertCooldown now w =
            continued e config prices alertCooldown now after alerts w2 \<and>
          checkChangeAlerts e (config\<lparr>ChangeAlertRules := before @ [rule]\<rparr>) prices alertCooldown
            now w = (Inr alerts, w2) \<and>
          priceHistory w2 = priceHistory w1 \<and>
          Mapping.lookup
            (lastAlertTime (priceHistory
               (snd (checkChangeAlerts e config prices alertCooldown now w))))
            (alertKey rule) = Some lastTime)
    \<and> (Mapping.lookup (lastAlertTime (priceHistory w1)) (alertKey rule) = None \<or>
        Mapping.lookup (lastAlertTime (priceHistory w1)) (alertKey rule) = Some lastTime \<and>
        time_Sub now (time_Parse lastTime) \<ge> alertCooldown \<longrightarrow>
          checkChangeAlerts e config prices alertCooldown now w =
            continued e config prices alertCooldown now after
              (alerts @ [changeAlert rule currentPrice basePrice])
              (recorded (alertKey rule) now w2) \<and>
          checkChangeAlerts e (config\<lparr>ChangeAlertRules := before @ [rule]\<rparr>) prices alertCooldown
            now w =
            (Inr (alerts @ [changeAlert rule currentPrice basePrice]),
             recorded (alertKey rule) now w2) \<and>
          Mapping.lookup (lastAlertTime (priceHistory (recorded (alertKey rule) now w2)))
            (alertKey rule) = Some (time_Format now) \<and>
          Mapping.lookup
            (lastAlertTime (priceHistory
               (snd (checkChangeAlerts e config prices alertCooldown now w))))
            (alertKey rule) = Some (time_Format now))
    \<and> (Mapping.lookup (lastAlertTime (priceHistory w1)) (alertKey rule) = Some (time_Format T) \<and>
        alertCooldown = 5 * minute \<longrightarrow>
          (now = T + 1 * second \<longrightarrow>
             checkChangeAlerts e config prices alertCooldown now w =
               continued e config prices alertCooldown now after alerts w2) \<and>
          (now = T + 6 * minute \<longrightarrow>
             checkChangeAlerts e config prices alertCooldown now w =
               continued e config prices alertCooldown now after
                 (alerts @ [changeAlert rule currentPrice basePrice])
                 (recorded (alertKey rule) now w2)))"
proof -
  note body = checkChangeRule_resolved [OF assms(3,4), of alertCooldown now alerts]
  note call = checkChangeAlerts_rule [OF assms(1,2)]
  have h: "priceHistory w2 = priceHistory w1"
    using assms(4) by (rule getHistoricalPrice_priceHistory)
  have whole: "checkChangeAlerts e config prices alertCooldown now w =
      (if inCooldown (priceHistory w1) (alertKey rule) now alertCooldown
       then continued e config prices alertCooldown now after alerts w2
       else continued e config prices alertCooldown now after
              (alerts @ [changeAlert rule currentPrice basePrice])
              (recorded (alertKey rule) now w2))"
    using assms(5) by (simp add: call body h)
  have "checkChangeAlerts e (config\<lparr>ChangeAlertRules := before @ [rule]\<rparr>) prices alertCooldown
        now w =
      (case checkChangeRule e prices alertCooldown now rule alerts w1 of
         (Inl panic, w2) \<Rightarrow> (Inl panic, w2)
       | (Inr alerts', w2) \<Rightarrow> (Inr alerts', w2))"
    using checkChangeAlerts_rule [of "config\<lparr>ChangeAlertRules := before @ [rule]\<rparr>" before rule
        "[]" e prices alertCooldown now w alerts w1] assms(2)
    by (simp add: continued_loop split: prod.splits sum.splits)
  then have upto: "checkChangeAlerts e (config\<lparr>ChangeAlertRules := before @ [rule]\<rparr>) prices
        alertCooldown now w =
      (if inCooldown (priceHistory w1) (alertKey rule) now alertCooldown
       then (Inr alerts, w2)
       else (Inr (alerts @ [changeAlert rule currentPrice basePrice]),
             recorded (alertKey rule) now w2))"
    using assms(5) by (simp add: body h)
  have key: "alertKey rule = cr_Symbol rule @ ''USDT'' @ ''_'' @ cr_Period rule"
    by (simp add: alertKey_def symbolKey_def)
  have young: "Mapping.lookup (lastAlertTime (priceHistory w1)) (alertKey rule) = Some lastTime \<and>
      time_Sub now (time_Parse lastTime) < alertCooldown \<longrightarrow>
        checkChangeAlerts e config prices alertCooldown now w =
          continued e config prices alertCooldown now after alerts w2 \<and>
        checkChangeAlerts e (config\<lparr>ChangeAlertRules := before @ [rule]\<rparr>) prices alertCooldown
          now w = (Inr alerts, w2) \<and>
        priceHistory w2 = priceHistory w1 \<and>
        Mapping.lookup
          (lastAlertTime (priceHistory
             (snd (checkChangeAlerts e config prices alertCooldown now w))))
          (alertKey rule) = Some lastTime"
  proof (intro impI, elim conjE)
    assume entry: "Mapping.lookup (lastAlertTime (priceHistory w1)) (alertKey rule) = Some lastTime"
      and age: "time_Sub now (time_Parse lastTime) < alertCooldown"
    then have cool: "inCooldown (priceHistory w1) (alertKey rule) now alertCooldown"
      by (simp add: inCooldown_def)
    then have "inCooldown (priceHistory w2) (alertKey rule) now alertCooldown"
      by (simp add: h)
    then have "alertKey rule \<notin> set (firedKeys e prices alertCooldown now after w2)"
      by (rule cooling_key_not_fired)
    then have "Mapping.lookup
        (lastAlertTime (priceHistory
           (snd (continued e config prices alertCooldown now after alerts w2))))
        (alertKey rule) = Some lastTime"
      by (simp add: continued_entry h entry)
    with cool show "checkChangeAlerts e config prices alertCooldown now w =
          continued e config prices alertCooldown now after alerts w2 \<and>
        checkChangeAlerts e (config\<lparr>ChangeAlertRules := before @ [rule]\<rparr>) prices alertCooldown
          now w = (Inr alerts, w2) \<and>
        priceHistory w2 = priceHistory w1 \<and>
        Mapping.lookup
          (lastAlertTime (priceHistory
             (snd (checkChangeAlerts e config prices alertCooldown now w))))
          (alertKey rule) = Some lastTime"
      by (simp add: whole upto h)
  qed
  have old: "Mapping.lookup (lastAlertTime (priceHistory w1)) (alertKey rule) = None \<or>
      Mapping.lookup (lastAlertTime (priceHistory w1)) (alertKey rule) = Some lastTime \<and>
      time_Sub now (time_Parse lastTime) \<ge> alertCooldown \<longrightarrow>
        checkChangeAlerts e config prices alertCooldown now w =
          continued e config prices alertCooldown now after
            (alerts @ [changeAlert rule currentPrice basePrice])
            (recorded (alertKey rule) now w2) \<and>
        checkChangeAlerts e (config\<lparr>ChangeAlertRules := before @ [rule]\<rparr>) prices alertCooldown
          now w =
          (Inr (alerts @ [changeAlert rule currentPrice basePrice]),
           recorded (alertKey rule) now w2) \<and>
        Mapping.lookup (lastAlertTime (priceHistory (recorded (alertKey rule) now w2)))
          (alertKey rule) = Some (time_Format now) \<and>
        Mapping.lookup
          (lastAlertTime (priceHistory
             (snd (checkChangeAlerts e config prices alertCooldown now w))))
          (alertKey rule) = Some (time_Format now)"
  proof
    assume "Mapping.lookup (lastAlertTime (priceHistory w1)) (alertKey rule) = None \<or>
      Mapping.lookup (lastAlertTime (priceHistory w1)) (alertKey rule) = Some lastTime \<and>
      time_Sub now (time_Parse lastTime) \<ge> alertCooldown"
    then have cool: "\<not> inCooldown (priceHistory w1) (alertKey rule) now alertCooldown"
      by (auto simp: inCooldown_def)
    have rec: "Mapping.lookup (lastAlertTime (priceHistory (recorded (alertKey rule) now w2)))
        (alertKey rule) = Some (time_Format now)"
      by (simp add: recorded_def)
    then have "Mapping.lookup
        (lastAlertTime (priceHistory
           (snd (continued e config prices alertCooldown now after
                  (alerts @ [changeAlert rule currentPrice basePrice])
                  (recorded (alertKey rule) now w2)))))
        (alertKey rule) = Some (time_Format now)"
      by (simp add: continued_entry)
    with cool rec show "checkChangeAlerts e config prices alertCooldown now w =
          continued e config prices alertCooldown now after
            (alerts @ [changeAlert rule currentPrice basePrice])
            (recorded (alertKey rule) now w2) \<and>
        checkChangeAlerts e (config\<lparr>ChangeAlertRules := before @ [rule]\<rparr>) prices alertCooldown
          now w =
          (Inr (alerts @ [changeAlert rule currentPrice basePrice]),
           recorded (alertKey rule) now w2) \<and>
        Mapping.lookup (lastAlertTime (priceHistory (recorded (alertKey rule) now w2)))
          (alertKey rule) = Some (time_Format now) \<and>
        Mapping.lookup
          (lastAlertTime (priceHistory
             (snd (checkChangeAlerts e config prices alertCooldown now w))))
          (alertKey rule) = Some (time_Format now)"
      by (simp add: whole upto)
  qed
  have one: "checkChangeAlerts e config prices alertCooldown now w =
      continued e config prices alertCooldown now after alerts w2"
    if "Mapping.lookup (lastAlertTime (priceHistory w1)) (alertKey rule) = Some (time_Format T)"
      and "alertCooldown = 5 * minute" and "now = T + 1 * second"
  proof -
    have "inCooldown (priceHistory w1) (alertKey rule) now alertCooldown"
      using age_one_second [of T] that by (simp add: inCooldown_def)
    then show ?thesis by (simp add: whole)
  qed
  have six: "checkChangeAlerts e config prices alertCooldown now w =
      continued e config prices alertCooldown now after
        (alerts @ [changeAlert rule currentPrice basePrice])
        (recorded (alertKey rule) now w2)"
    if "Mapping.lookup (lastAlertTime (priceHistory w1)) (alertKey rule) = Some (time_Format T)"
      and "alertCooldown = 5 * minute" and "now = T + 6 * minute"
  proof -
    have "\<not> inCooldown (priceHistory w1) (alertKey rule) now alertCooldown"
      using age_six_minutes [of T] that by (simp add: inCooldown_def)
    then show ?thesis by (simp add: whole)
  qed
  have again: "Mapping.lookup (lastAlertTime (priceHistory w1)) (alertKey rule) =
        Some (time_Format T) \<and> alertCooldown = 5 * minute \<longrightarrow>
      (now = T + 1 * second \<longrightarrow>
         checkChangeAlerts e config prices alertCooldown now w =
           continued e config prices alertCooldown now after alerts w2) \<and>
      (now = T + 6 * minute \<longrightarrow>
         checkChangeAlerts e config prices alertCooldown now w =
           continued e config prices alertCooldown now after
             (alerts @ [changeAlert rule currentPrice basePrice])
             (recorded (alertKey rule) now w2))"
    using one six by blast
  from key young old again show ?thesis by (intro conjI)
qed

text \<open>
  With a cooldown of 5 minutes, the open price 200 of the day and ETH at 210. From
  the state of the start the call at \<open>t0\<close> returns the alert and leaves the state
  \<open>firedOnce\<close>. From that state the call one second later returns no alert and leaves
  the entry of \<open>t0\<close>; the call six minutes later returns the alert and leaves the entry
  of that time.
\<close>

theorem change_alert_cooldown_witness:
  "checkChangeAlerts open200 ethRules eth210 (5 * minute) t0 start =
     (Inr [changeAlert ethDaily 210 200], firedOnce)
   \<and> checkChangeAlerts open200 ethRules eth210 (5 * minute) (t0 + 1 * second) firedOnce =
     (Inr [], firedOnce\<lparr>requests := requests firedOnce @ [GetBinanceKline ''ETHUSDT'' ''1d'' 1]\<rparr>)
   \<and> Mapping.lookup
       (lastAlertTime (priceHistory
          (snd (checkChangeAlerts open200 ethRules eth210 (5 * minute) (t0 + 1 * second)
                  firedOnce))))
       ''ETHUSDT_daily'' = Some (time_Format t0)
   \<and> checkChangeAlerts open200 ethRules eth210 (5 * minute) (t0 + 6 * minute) firedOnce =
     (Inr [changeAlert ethDaily 210 200],
      recorded ''ETHUSDT_daily'' (t0 + 6 * minute)
        (firedOnce\<lparr>requests := requests firedOnce @ [GetBinanceKline ''ETHUSDT'' ''1d'' 1]\<rparr>))
   \<and> Mapping.lookup
       (lastAlertTime (priceHistory
          (snd (checkChangeAlerts open200 ethRules eth210 (5 * minute) (t0 + 6 * minute)
                  firedOnce))))
       ''ETHUSDT_daily'' = Some (time_Format (t0 + 6 * minute))
   \<and> time_Format t0 = RFC3339 1700000000
   \<and> time_Format (t0 + 6 * minute) = RFC3339 1700000360"
proof -
  let ?again = "firedOnce\<lparr>requests := requests firedOnce @ [GetBinanceKline ''ETHUSDT'' ''1d'' 1]\<rparr>"
  have rules: "ChangeAlertRules ethRules = [] @ ethDaily # []"
    by (simp add: ethRules_def)
  have before: "checkChangeAlerts open200 (ethRules\<lparr>ChangeAlertRules := []\<rparr>) eth210 (5 * minute)
      n w = (Inr [], w)" for n w
    by simp
  have r0: "getHistoricalPrice open200 (cr_Symbol ethDaily) (cr_Period ethDaily) start =
      (Inr 200, start\<lparr>requests := [GetBinanceKline ''ETHUSDT'' ''1d'' 1]\<rparr>)"
    using open200_resolved [of start] by (simp add: start_def)
  have r1: "getHistoricalPrice open200 (cr_Symbol ethDaily) (cr_Period ethDaily) firedOnce =
      (Inr 200, ?again)"
    by (rule open200_resolved)
  have none: "Mapping.lookup (lastAlertTime (priceHistory start)) (alertKey ethDaily) = None"
    by (simp add: start_def)
  note first = change_alert_cooldown [OF rules before eth210_lookup r0 hit_210_200,
      where lastTime = "time_Format t0" and T = t0]
  note later = change_alert_cooldown [OF rules before eth210_lookup r1 hit_210_200,
      where lastTime = "time_Format t0" and T = t0]
  have 1: "checkChangeAlerts open200 ethRules eth210 (5 * minute) t0 start =
      (Inr [changeAlert ethDaily 210 200], firedOnce)"
    using first [THEN conjunct2, THEN conjunct2, THEN conjunct1] none
    by (simp add: ethDaily_key firedOnce_def)
  have young: "time_Sub (t0 + 1 * second) (time_Parse (time_Format t0)) < 5 * minute"
    by (rule age_one_second)
  have old: "5 * minute \<le> time_Sub (t0 + 6 * minute) (time_Parse (time_Format t0))"
    using age_six_minutes [of t0] by simp
  have 2: "checkChangeAlerts open200 ethRules eth210 (5 * minute) (t0 + 1 * second) firedOnce =
      (Inr [], ?again)
    \<and> Mapping.lookup
       (lastAlertTime (priceHistory
          (snd (checkChangeAlerts open200 ethRules eth210 (5 * minute) (t0 + 1 * second)
                  firedOnce))))
       ''ETHUSDT_daily'' = Some (time_Format t0)"
    using later [THEN conjunct2, THEN conjunct1] firedOnce_entry young
    by (simp add: ethDaily_key)
  have 3: "checkChangeAlerts open200 ethRules eth210 (5 * minute) (t0 + 6 * minute) firedOnce =
      (Inr [changeAlert ethDaily 210 200],
       recorded ''ETHUSDT_daily'' (t0 + 6 * minute) ?again)
    \<and> Mapping.lookup
       (lastAlertTime (priceHistory
          (snd (checkChangeAlerts open200 ethRules eth210 (5 * minute) (t0 + 6 * minute)
                  firedOnce))))
       ''ETHUSDT_daily'' = Some (time_Format (t0 + 6 * minute))"
    using later [THEN conjunct2, THEN conjunct2, THEN conjunct1] firedOnce_entry old
    by (simp add: ethDaily_key)
  have 4: "time_Format t0 = RFC3339 1700000000"
    "time_Format (t0 + 6 * minute) = RFC3339 1700000360"
    by (simp_all add: time_Format_def t0_def second_def minute_def)
  from 1 2 [THEN conjunct1] 2 [THEN conjunct2] 3 [THEN conjunct1] 3 [THEN conjunct2] 4
  show ?thesis by (intro conjI)
qed

section \<open>What the evaluation changes in the cooldown state\<close>






section \<open>The sends and the log keep the cooldown state\<close>

lemma grows_refl [simp]: "grows w w"
  by (simp add: grows_def)

lemma grows_trans: "grows w w' \<Longrightarrow> grows w' w'' \<Longrightarrow> grows w w''"
  by (auto simp: grows_def)

lemma grows_http [simp]: "grows w (w\<lparr>requests := requests w @ [req]\<rparr>)"
  by (simp add: grows_def)

lemma getHistoricalPriceFromBinance_grows:
  "grows w (snd (getHistoricalPriceFromBinance e symbol period w))"
  by (simp add: getHistoricalPriceFromBinance_def getDailyOpenPriceFromBinance_def
      get15mAgoPriceFromBinance_def http_def
      split: sum.splits json.splits option.splits)

lemma getHistoricalPriceFromBybit_grows:
  "grows w (snd (getHistoricalPriceFromBybit e symbol period w))"
  by (simp add: getHistoricalPriceFromBybit_def getDailyOpenPriceFromBybit_def
      get15mAgoPriceFromBybit_def http_def
      split: sum.splits option.splits)

lemma getHistoricalPrice_grows: "grows w (snd (getHistoricalPrice e symbol period w))"
proof -
  let ?b = "getHistoricalPriceFromBinance e (symbol @ ''USDT'') period w"
  let ?y = "getHistoricalPriceFromBybit e (symbol @ ''USDT'') period (snd ?b)"
  have b: "grows w (snd ?b)" by (rule getHistoricalPriceFromBinance_grows)
  have "grows (snd ?b) (snd ?y)" by (rule getHistoricalPriceFromBybit_grows)
  with b have y: "grows w (snd ?y)" by (rule grows_trans)
  have "snd (getHistoricalPrice e symbol period w) = snd ?b \<or>
        snd (getHistoricalPrice e symbol period w) = snd ?y"
    by (simp add: getHistoricalPrice_unfold split: prod.splits sum.splits)
  with b y show ?thesis by auto
qed

lemma logLoop_grows: "grows w (snd (logLoop e syms prices w))"
proof (induction syms arbitrary: w)
  case Nil
  show ?case by simp
next
  case (Cons symbol syms)
  let ?d = "getHistoricalPrice e symbol ''daily'' w"
  let ?m = "getHistoricalPrice e symbol ''15m'' (snd ?d)"
  have d: "grows w (snd ?d)" by (rule getHistoricalPrice_grows)
  have "grows (snd ?d) (snd ?m)" by (rule getHistoricalPrice_grows)
  with d have m: "grows w (snd ?m)" by (rule grows_trans)
  have "grows (snd ?m) (snd (logLoop e syms prices (snd ?m)))" by (rule Cons.IH)
  with m have r: "grows w (snd (logLoop e syms prices (snd ?m)))" by (rule grows_trans)
  show ?case
  proof (cases "Mapping.lookup prices (symbolKey symbol)")
    case None
    then show ?thesis by (simp add: Cons.IH)
  next
    case (Some price)
    then have "snd (logLoop e (symbol # syms) prices w) = snd ?d \<or>
               snd (logLoop e (symbol # syms) prices w) = snd ?m \<or>
               snd (logLoop e (symbol # syms) prices w) = snd (logLoop e syms prices (snd ?m))"
      by (simp split: prod.splits)
    with d m r show ?thesis by auto
  qed
qed

lemma sendAlerts_grows: "grows w (snd (sendAlerts e triggered w))"
  by (simp add: sendAlerts_def http_def split: option.splits)

lemma sendPriceAlerts_grows:
  "grows w (snd (sendPriceAlerts e alertCooldown c priceAlerts lastAlert w))"
  using sendAlerts_grows [of w e priceAlerts]
  by (auto simp: sendPriceAlerts_def split: prod.splits option.splits)

lemma sendChangeAlerts_grows: "grows w (sendChangeAlerts e changeAlerts w)"
  by (simp add: sendChangeAlerts_def sendAlerts_grows)

lemma tick_unfold:
  "getAllPrices e config w = ((Some prices, source), w1) \<Longrightarrow>
   checkChangeAlerts e config prices alertCooldown (t_eval c) w1 = (Inr changeAlerts, w3) \<Longrightarrow>
   tick e config alertCooldown c lastAlert w =
     (let s = sendPriceAlerts e alertCooldown c (fst (checkPriceAlerts config prices w1))
                lastAlert w3;
          l = logCurrentPrices e config prices (sendChangeAlerts e changeAlerts (snd s))
      in (case fst l of Some panic \<Rightarrow> Inl panic | None \<Rightarrow> Inr (fst s), snd l))"
  by (simp add: tick_def checkPriceAlerts_def Let_def split: prod.splits option.splits)

lemma tick_grows:
  assumes "getAllPrices e config w = ((Some prices, source), w1)"
    and "checkChangeAlerts e config prices alertCooldown (t_eval c) w1 = (Inr changeAlerts, w3)"
  shows "grows w3 (snd (tick e config alertCooldown c lastAlert w))"
proof -
  let ?s = "sendPriceAlerts e alertCooldown c (fst (checkPriceAlerts config prices w1))
              lastAlert w3"
  let ?c = "sendChangeAlerts e changeAlerts (snd ?s)"
  have "grows w3 (snd ?s)" by (rule sendPriceAlerts_grows)
  moreover have "grows (snd ?s) ?c" by (rule sendChangeAlerts_grows)
  ultimately have "grows w3 ?c" by (rule grows_trans)
  moreover have "grows ?c (snd (logCurrentPrices e config prices ?c))"
    by (simp add: logCurrentPrices_def logLoop_grows)
  ultimately have "grows w3 (snd (logCurrentPrices e config prices ?c))" by (rule grows_trans)
  then show ?thesis by (simp add: tick_unfold [OF assms] Let_def)
qed

lemma checkChangeAlerts_posts:
  "filter isPost (requests (snd (checkChangeAlerts e config prices c n w))) =
     filter isPost (requests w)"
  using checkChangeLoop_effect [of e prices c n "ChangeAlertRules config" "[]" w undefined]
  by (simp add: checkChangeAlerts_def)

section \<open>The sends of one pass of the loop\<close>

text \<open>
  Claim C7. \<open>sendAlerts\<close> leaves \<open>priceHistory\<close> as it is, whether the send succeeds or
  fails. \<open>checkChangeAlerts\<close>, which records the cooldown entries, sends no notification.
  In a pass of the loop no notification is sent before the evaluation has ended, every
  later request comes after the state in which the entries were recorded, and at the
  end of the pass \<open>priceHistory\<close> is what \<open>checkChangeAlerts\<close> has left: a failed send
  removes no entry. So at the end of the pass every key under which the evaluation
  added an alert holds the time of the evaluation, and until the cooldown has passed
  since that time the key is in cooldown, whatever became of the send.
\<close>

theorem cooldown_survives_failed_send:
  "priceHistory (snd (sendAlerts e triggered w)) = priceHistory w
   \<and> filter isPost (requests (snd (checkChangeAlerts e config prices alertCooldown now w))) =
       filter isPost (requests w)
   \<and> (getAllPrices e config w = ((Some prices, source), w1) \<and>
       checkChangeAlerts e config prices alertCooldown (t_eval c) w1 = (Inr changeAlerts, w3) \<longrightarrow>
         filter isPost (requests w3) = filter isPost (requests w) \<and>
         priceHistory (snd (tick e config alertCooldown c lastAlert w)) = priceHistory w3 \<and>
         (\<exists>rest. requests (snd (tick e config alertCooldown c lastAlert w)) =
                   requests w3 @ rest))
   \<and> (getAllPrices e config w = ((Some prices, source), w1) \<and>
       checkChangeAlerts e config prices alertCooldown (t_eval c) w1 = (Inr changeAlerts, w3) \<and>
       k \<in> set (firedKeys e prices alertCooldown (t_eval c) (ChangeAlertRules config) w1) \<longrightarrow>
         Mapping.lookup
           (lastAlertTime (priceHistory (snd (tick e config alertCooldown c lastAlert w)))) k =
           Some (time_Format (t_eval c)) \<and>
         inCooldown (priceHistory (snd (tick e config alertCooldown c lastAlert w))) k later
           alertCooldown =
           (time_Sub later (time_Parse (time_Format (t_eval c))) < alertCooldown))"
proof -
  have 1: "priceHistory (snd (sendAlerts e triggered w)) = priceHistory w"
    using sendAlerts_grows [of w e triggered] by (simp add: grows_def)
  have 2: "filter isPost (requests (snd (checkChangeAlerts e config prices alertCooldown now w))) =
       filter isPost (requests w)"
    by (rule checkChangeAlerts_posts)
  have 3: "getAllPrices e config w = ((Some prices, source), w1) \<and>
       checkChangeAlerts e config prices alertCooldown (t_eval c) w1 = (Inr changeAlerts, w3) \<longrightarrow>
         filter isPost (requests w3) = filter isPost (requests w) \<and>
         priceHistory (snd (tick e config alertCooldown c lastAlert w)) = priceHistory w3 \<and>
         (\<exists>rest. requests (snd (tick e config alertCooldown c lastAlert w)) =
                   requests w3 @ rest)"
    using tick_grows [of e config w prices source w1 alertCooldown c changeAlerts w3 lastAlert]
      getAllPrices_getsOnly [of e config w "(Some prices, source)" w1]
      checkChangeAlerts_posts [of e config prices alertCooldown "t_eval c" w1]
    by (auto simp: grows_def getsOnly_def)
  have 4: "getAllPrices e config w = ((Some prices, source), w1) \<and>
       checkChangeAlerts e config prices alertCooldown (t_eval c) w1 = (Inr changeAlerts, w3) \<and>
       k \<in> set (firedKeys e prices alertCooldown (t_eval c) (ChangeAlertRules config) w1) \<longrightarrow>
         Mapping.lookup
           (lastAlertTime (priceHistory (snd (tick e config alertCooldown c lastAlert w)))) k =
           Some (time_Format (t_eval c)) \<and>
         inCooldown (priceHistory (snd (tick e config alertCooldown c lastAlert w))) k later
           alertCooldown =
           (time_Sub later (time_Parse (time_Format (t_eval c))) < alertCooldown)"
  proof (intro impI, elim conjE)
    assume p: "getAllPrices e config w = ((Some prices, source), w1)"
      and ch: "checkChangeAlerts e config prices alertCooldown (t_eval c) w1 = (Inr changeAlerts, w3)"
      and k: "k \<in> set (firedKeys e prices alertCooldown (t_eval c) (ChangeAlertRules config) w1)"
    from 3 p ch have h: "priceHistory (snd (tick e config alertCooldown c lastAlert w)) =
        priceHistory w3"
      by simp
    have "Mapping.lookup (lastAlertTime (priceHistory w3)) k = Some (time_Format (t_eval c))"
      using checkChangeLoop_effect [of e prices alertCooldown "t_eval c"
          "ChangeAlertRules config" "[]" w1 k] ch k
      by (simp add: checkChangeAlerts_def)
    with h show "Mapping.lookup
           (lastAlertTime (priceHistory (snd (tick e config alertCooldown c lastAlert w)))) k =
           Some (time_Format (t_eval c)) \<and>
         inCooldown (priceHistory (snd (tick e config alertCooldown c lastAlert w))) k later
           alertCooldown =
           (time_Sub later (time_Parse (time_Format (t_eval c))) < alertCooldown)"
      by (simp add: inCooldown_def)
  qed
  from 1 2 3 4 show ?thesis by (intro conjI)
qed

lemma sscanf_digits_210 [simp]: "sscanf_digits ''210'' = Some 210"
  by (simp add: sscanf_digits_def digit_def)

lemma ethRises_prices:
  "getAllPrices (ethRises ntfy) ethRules start =
     ((Some eth210, ''Binance''), start\<lparr>requests := [GetBinanceTickers]\<rparr>)"
  by (simp add: getAllPrices_def priceSources_def getPricesFromBinance_def http_def
      ethRises_def offline_def start_def eth210_def)

lemma ethRises_daily:
  "getHistoricalPrice (ethRises ntfy) symbol ''daily'' w =
     (Inr 200, w\<lparr>requests := requests w @ [GetBinanceKline (symbol @ ''USDT'') ''1d'' 1]\<rparr>)"
  by (simp add: getHistoricalPrice_unfold getHistoricalPriceFromBinance_def
      getDailyOpenPriceFromBinance_def http_def index_def dailyKline_def offline_def
      ethRises_def)

lemma ethRises_changes:
  "checkChangeAlerts (ethRises ntfy) ethRules eth210 (5 * minute) t0
     (start\<lparr>requests := [GetBinanceTickers]\<rparr>) =
     (Inr [changeAlert ethDaily 210 200],
      recorded ''ETHUSDT_daily'' t0
        (start\<lparr>requests := [GetBinanceTickers, GetBinanceKline ''ETHUSDT'' ''1d'' 1]\<rparr>))"
  by (simp add: checkChangeAlerts_def ethRules_def ethDaily_def eth210_def start_def
      checkChangeRule_def symbolKey_def alertKey_def ethRises_daily inCooldown_def
      changeAlert_def recorded_def)

lemma ethRises_firedKeys:
  "firedKeys (ethRises ntfy) eth210 (5 * minute) t0 (ChangeAlertRules ethRules)
     (start\<lparr>requests := [GetBinanceTickers]\<rparr>) = [''ETHUSDT_daily'']"
  by (simp add: ethRules_def ethDaily_def eth210_def start_def checkChangeRule_def
      symbolKey_def alertKey_def ethRises_daily inCooldown_def)

text \<open>A pass of the loop in which ETH has risen by 5 per cent and the notification
  endpoint does not answer: the send of the change alert fails, at the end of the pass
  the cooldown map holds the time of the evaluation under ETHUSDT_daily, and one second
  later the key is in cooldown.\<close>

theorem cooldown_survives_failed_send_witness:
  "fst (sendAlerts (ethRises ntfyDown) [changeAlert ethDaily 210 200]
         (recorded ''ETHUSDT_daily'' t0
            (start\<lparr>requests := [GetBinanceTickers, GetBinanceKline ''ETHUSDT'' ''1d'' 1]\<rparr>))) =
     Some (PushFailed ''timeout'')
   \<and> Mapping.lookup
       (lastAlertTime (priceHistory (snd (tick (ethRises ntfyDown) ethRules (5 * minute) clock0 zeroTime start))))
       ''ETHUSDT_daily'' = Some (RFC3339 1700000000)
   \<and> inCooldown (priceHistory (snd (tick (ethRises ntfyDown) ethRules (5 * minute) clock0 zeroTime start)))
       ''ETHUSDT_daily'' (t0 + 1 * second) (5 * minute)"
proof -
  let ?w3 = "recorded ''ETHUSDT_daily'' t0
        (start\<lparr>requests := [GetBinanceTickers, GetBinanceKline ''ETHUSDT'' ''1d'' 1]\<rparr>)"
  let ?end = "snd (tick (ethRises ntfyDown) ethRules (5 * minute) clock0 zeroTime start)"
  have c: "checkChangeAlerts (ethRises ntfyDown) ethRules eth210 (5 * minute) (t_eval clock0)
     (start\<lparr>requests := [GetBinanceTickers]\<rparr>) = (Inr [changeAlert ethDaily 210 200], ?w3)"
    using ethRises_changes by (simp add: clock0_def)
  have k: "''ETHUSDT_daily'' \<in> set (firedKeys (ethRises ntfyDown) eth210 (5 * minute)
      (t_eval clock0) (ChangeAlertRules ethRules) (start\<lparr>requests := [GetBinanceTickers]\<rparr>))"
    using ethRises_firedKeys [of ntfyDown] by (simp add: clock0_def)
  note claim = cooldown_survives_failed_send [where e = "ethRises ntfyDown"
      and config = ethRules and w = start and prices = eth210 and alertCooldown = "5 * minute"
      and c = clock0 and lastAlert = zeroTime and k = "''ETHUSDT_daily''"
      and later = "t0 + 1 * second"]
  have "priceHistory ?end = priceHistory ?w3"
    using claim [THEN conjunct2, THEN conjunct2, THEN conjunct1, THEN mp,
        OF conjI [OF ethRises_prices c]]
    by simp
  then have 2: "Mapping.lookup (lastAlertTime (priceHistory ?end)) ''ETHUSDT_daily'' =
      Some (RFC3339 1700000000)"
    by (simp add: recorded_def time_Format_def t0_def second_def)
  have "inCooldown (priceHistory ?end) ''ETHUSDT_daily'' (t0 + 1 * second) (5 * minute) =
      (time_Sub (t0 + 1 * second) (time_Parse (time_Format (t_eval clock0))) < 5 * minute)"
    using claim [THEN conjunct2, THEN conjunct2, THEN conjunct2, THEN mp,
        OF conjI [OF ethRises_prices conjI [OF c k]]]
    by simp
  then have 3: "inCooldown (priceHistory ?end) ''ETHUSDT_daily'' (t0 + 1 * second) (5 * minute)"
    using age_one_second [of t0] by (simp add: clock0_def)
  have 1: "fst (sendAlerts (ethRises ntfyDown) [changeAlert ethDaily 210 200] ?w3) =
     Some (PushFailed ''timeout'')"
    by (simp add: sendAlerts_def http_def ethRises_def offline_def ntfyDown_def)
  from 1 2 3 show ?thesis by (intro conjI)
qed






end
